theory Spec2Isabelle
  imports Complex_Main
begin

section \<open>Data model of \<open>map.ts\<close>\<close>

text \<open>
  The cells of the 2048 board. A \<open>CellObject\<close> is the TypeScript object
  \<open>{state, value}\<close>; a \<open>Cell\<close> is such an object or \<open>null\<close> (here \<open>None\<close>);
  a \<open>Map2048\<close> is an array of rows. The field \<open>value\<close> is a JavaScript number that the
  program only ever fills with 2, 4 and doublings of these; it is modelled as an
  unbounded integer, so that \<open>value * 2\<close> and the sums of scores are exact.
\<close>

datatype CellState = Normal | Merged | New

record CellObject =
  cell_state :: CellState
  cell_value :: int

type_synonym Cell = "CellObject option"

type_synonym Map2048 = "Cell list list"

datatype Direction = Up | Left | Right | Down

datatype RotateDegree = D0 | D90 | D180 | D270

text \<open>
  \<open>MoveResult\<close> is \<open>{result, isMoved, score}\<close>. \<open>moveRowLeft\<close> returns an object with
  the same three fields whose \<open>result\<close> is one row, so the record is polymorphic in
  the type of \<open>result\<close>.
\<close>

record 'r MoveResult =
  result :: 'r
  isMoved :: bool
  score :: int

text \<open>The accumulator of the \<open>reduce\<close> in \<open>moveRowLeft\<close>.\<close>

record Acc =
  lastCell :: Cell
  acc_result :: "Cell list"
  acc_score :: int

text \<open>
  What the program can throw: the explicit \<open>Error("Map is not N by M")\<close>, the
  \<open>TypeError\<close> of reading a property of \<open>undefined\<close> (or of destructuring it), and the
  \<open>RangeError\<close> of \<open>Array.prototype.with\<close>. \<open>UndefinedCell\<close> is not a throw: it marks
  the place where the JavaScript would put \<open>undefined\<close>, which is no value of type
  \<open>Cell\<close>, into a grid (an out-of-range column read on a ragged array).
\<close>

datatype error = NotNByM | TypeError | RangeError | UndefinedCell

section \<open>The line reducer\<close>

text \<open>The callback of \<open>row.reduce\<close>, with its four branches in the order of the source.\<close>

fun reduceStep :: "Acc \<Rightarrow> Cell \<Rightarrow> Acc" where
  "reduceStep acc None = acc"
| "reduceStep acc (Some cell) =
     (case lastCell acc of
        None \<Rightarrow> acc\<lparr>lastCell := Some cell\<rparr>
      | Some lc \<Rightarrow>
          if cell_value lc = cell_value cell then
            (let mergedCell = \<lparr>cell_state = Merged, cell_value = cell_value cell * 2\<rparr>
             in \<lparr>lastCell = None,
                 acc_result = acc_result acc @ [Some mergedCell],
                 acc_score = acc_score acc + cell_value mergedCell\<rparr>)
          else
            (let normalCell = lc\<lparr>cell_state := Normal\<rparr>
             in \<lparr>lastCell = Some cell,
                 acc_result = acc_result acc @ [Some normalCell],
                 acc_score = acc_score acc\<rparr>))"

definition reduced :: "Cell list \<Rightarrow> Acc" where
  "reduced row = foldl reduceStep \<lparr>lastCell = None, acc_result = [], acc_score = 0\<rparr> row"

text \<open>\<open>finalResult\<close>: the emitted cells, followed by the pending cell if there is one.\<close>

definition finalResult :: "Acc \<Rightarrow> Cell list" where
  "finalResult acc =
     (case lastCell acc of
        None \<Rightarrow> acc_result acc
      | Some lc \<Rightarrow> acc_result acc @ [Some (lc\<lparr>cell_state := Normal\<rparr>)])"

text \<open>
  \<open>Array.from({length: n}, (_, i) => xs[i] ?? null)\<close>: a read past the end of \<open>xs\<close>
  is \<open>undefined\<close>, which \<open>??\<close> replaces by \<open>null\<close>.
\<close>

definition resultRow :: "nat \<Rightarrow> Cell list \<Rightarrow> Cell list" where
  "resultRow n xs = map (\<lambda>i. if i < length xs then xs ! i else None) [0..<n]"

text \<open>\<open>cell?.value\<close>: \<open>undefined\<close> (here \<open>None\<close>) for \<open>null\<close>, the value otherwise.\<close>

definition optValue :: "Cell \<Rightarrow> int option" where
  "optValue c = map_option cell_value c"

definition moveRowLeft :: "Cell list \<Rightarrow> (Cell list) MoveResult" where
  "moveRowLeft row =
     (let acc = reduced row;
          res = resultRow (length row) (finalResult acc)
      in \<lparr>result = res,
          isMoved = list_ex (\<lambda>i. optValue (row ! i) \<noteq> optValue (res ! i)) [0..<length row],
          score = acc_score acc\<rparr>)"

section \<open>Rotation\<close>

text \<open>
  \<open>map[r][c]\<close> as the rotation reads it: \<open>map[r]\<close> is \<open>undefined\<close> past the last
  row, and reading \<open>[c]\<close> of it throws; past the end of a row the read itself is
  \<open>undefined\<close> and nothing is thrown.
\<close>

definition cellAt :: "'a list list \<Rightarrow> nat \<Rightarrow> nat \<Rightarrow> error + 'a" where
  "cellAt m r c =
     (if r < length m
      then (if c < length (m ! r) then Inr (m ! r ! c) else Inl UndefinedCell)
      else Inl TypeError)"

fun collect :: "(error + 'a) list \<Rightarrow> error + 'a list" where
  "collect [] = Inr []"
| "collect (x # xs) =
     (case x of
        Inl e \<Rightarrow> Inl e
      | Inr v \<Rightarrow> (case collect xs of Inl e \<Rightarrow> Inl e | Inr vs \<Rightarrow> Inr (v # vs)))"

text \<open>\<open>Array.from({length: n}, (_, i) => f i)\<close>, the elements computed in index order.\<close>

definition arrayFrom :: "nat \<Rightarrow> (nat \<Rightarrow> error + 'a) \<Rightarrow> error + 'a list" where
  "arrayFrom n f = collect (map f [0..<n])"

text \<open>
  \<open>columnLength\<close> is \<open>map[0].length\<close>, read before the \<open>switch\<close>: an array without
  rows throws for every angle. The index \<open>columnLength - columnIndex - 1\<close> is never
  negative, since \<open>columnIndex < columnLength\<close> inside \<open>Array.from\<close>.
\<close>

definition rotateMapCounterClockwise :: "'a list list \<Rightarrow> RotateDegree \<Rightarrow> error + 'a list list" where
  "rotateMapCounterClockwise m degree =
     (case m of
        [] \<Rightarrow> Inl TypeError
      | row0 # _ \<Rightarrow>
          (let rowLength = length m; columnLength = length row0
           in case degree of
                D0 \<Rightarrow> Inr m
              | D90 \<Rightarrow>
                  arrayFrom columnLength (\<lambda>columnIndex.
                    arrayFrom rowLength (\<lambda>rowIndex.
                      cellAt m rowIndex (columnLength - columnIndex - 1)))
              | D180 \<Rightarrow>
                  arrayFrom rowLength (\<lambda>rowIndex.
                    arrayFrom columnLength (\<lambda>columnIndex.
                      cellAt m (rowLength - rowIndex - 1) (columnLength - columnIndex - 1)))
              | D270 \<Rightarrow>
                  arrayFrom columnLength (\<lambda>columnIndex.
                    arrayFrom rowLength (\<lambda>rowIndex.
                      cellAt m (rowLength - rowIndex - 1) columnIndex))))"

section \<open>The move engine\<close>

definition validateMapIsNByM :: "'a list list \<Rightarrow> error + bool" where
  "validateMapIsNByM m =
     (case m of
        [] \<Rightarrow> Inl TypeError
      | row0 # _ \<Rightarrow> Inr (list_all (\<lambda>row. length row = length row0) m))"

definition moveLeft :: "Map2048 \<Rightarrow> Map2048 MoveResult" where
  "moveLeft m =
     (let movedRows = map moveRowLeft m
      in \<lparr>result = map result movedRows,
          isMoved = list_ex isMoved movedRows,
          score = foldl (\<lambda>acc movedRow. acc + score movedRow) 0 movedRows\<rparr>)"

fun rotateDegreeMap :: "Direction \<Rightarrow> RotateDegree" where
  "rotateDegreeMap Up = D90"
| "rotateDegreeMap Right = D180"
| "rotateDegreeMap Down = D270"
| "rotateDegreeMap Left = D0"

fun revertDegreeMap :: "Direction \<Rightarrow> RotateDegree" where
  "revertDegreeMap Up = D270"
| "revertDegreeMap Right = D180"
| "revertDegreeMap Down = D90"
| "revertDegreeMap Left = D0"

definition moveMapIn2048Rule :: "Map2048 \<Rightarrow> Direction \<Rightarrow> error + Map2048 MoveResult" where
  "moveMapIn2048Rule m direction =
     (case validateMapIsNByM m of
        Inl e \<Rightarrow> Inl e
      | Inr ok \<Rightarrow>
          if \<not> ok then Inl NotNByM
          else
            (case rotateMapCounterClockwise m (rotateDegreeMap direction) of
               Inl e \<Rightarrow> Inl e
             | Inr rotatedMap \<Rightarrow>
                 (let moved = moveLeft rotatedMap
                  in case rotateMapCounterClockwise (result moved) (revertDegreeMap direction) of
                       Inl e \<Rightarrow> Inl e
                     | Inr back \<Rightarrow>
                         Inr \<lparr>result = back, isMoved = isMoved moved, score = score moved\<rparr>)))"

section \<open>The spawner\<close>

text \<open>
  \<open>Math.random()\<close> is a parameter: a number \<open>rnd\<close> with \<open>0 \<le> rnd < 1\<close>, taken as a
  real, so the rounding of the product in \<open>getRandomInt\<close> is left out.
  \<open>addNewCell\<close> draws twice, first for the value and then for the position.
\<close>

definition getRandomInt :: "real \<Rightarrow> nat \<Rightarrow> nat" where
  "getRandomInt rnd mx = nat \<lfloor>rnd * real mx\<rfloor>"

text \<open>
  The two nested loops over \<open>i, j < 4\<close>, as a recursion over the index pairs in
  row-major order. \<open>map2048[i][j]\<close> throws when row \<open>i\<close> is missing; a missing column
  reads \<open>undefined\<close>, which is not \<open>=== null\<close>.
\<close>

definition indices4 :: "(nat \<times> nat) list" where
  "indices4 = List.product [0..<4] [0..<4]"

fun nullPositions :: "Map2048 \<Rightarrow> (nat \<times> nat) list \<Rightarrow> error + (nat \<times> nat) list" where
  "nullPositions m [] = Inr []"
| "nullPositions m ((i, j) # ps) =
     (if i < length m
      then (case nullPositions m ps of
              Inl e \<Rightarrow> Inl e
            | Inr rest \<Rightarrow> Inr (if j < length (m ! i) \<and> m ! i ! j = None then (i, j) # rest else rest))
      else Inl TypeError)"

text \<open>\<open>xs.with(i, v)\<close>: a copy of \<open>xs\<close> with index \<open>i\<close> replaced; out of range it throws.\<close>

definition arrayWith :: "'a list \<Rightarrow> nat \<Rightarrow> 'a \<Rightarrow> error + 'a list" where
  "arrayWith xs i v = (if i < length xs then Inr (xs[i := v]) else Inl RangeError)"

text \<open>
  With no empty position \<open>getRandomInt(0)\<close> is 0, \<open>nullPositions[0]\<close> is \<open>undefined\<close>
  and destructuring it throws a \<open>TypeError\<close>.
\<close>

definition addNewCell :: "real \<Rightarrow> real \<Rightarrow> Map2048 \<Rightarrow> error + Map2048" where
  "addNewCell rnd1 rnd2 map2048 =
     (let randomInt1 = (if rnd1 < 6 / 10 then 2 else 4)
      in case nullPositions map2048 indices4 of
           Inl e \<Rightarrow> Inl e
         | Inr nps \<Rightarrow>
             (let randomInt2 = getRandomInt rnd2 (length nps)
              in if randomInt2 < length nps
                 then (case nps ! randomInt2 of
                         (i, j) \<Rightarrow>
                           if i < length map2048
                           then (case arrayWith (map2048 ! i) j
                                        (Some \<lparr>cell_state = New, cell_value = randomInt1\<rparr>) of
                                   Inl e \<Rightarrow> Inl e
                                 | Inr row \<Rightarrow> arrayWith map2048 i row)
                           else Inl TypeError)
                 else Inl TypeError))"

section \<open>The terminal detector\<close>

text \<open>
  \<open>userLoses\<close> compares cells with \<open>===\<close>. On objects that is identity, not equality
  of contents, so here a cell is \<open>null\<close> or the address of its object, and the
  contents live in a store. The functions above never compare two objects and are
  modelled on the contents alone.
\<close>

type_synonym ref = nat

type_synonym RefMap = "ref option list list"

type_synonym store = "ref \<Rightarrow> CellObject"

datatype jsval = JUndefined | JNull | JRef ref

definition refAt :: "RefMap \<Rightarrow> nat \<Rightarrow> nat \<Rightarrow> error + jsval" where
  "refAt m i j =
     (if i < length m
      then Inr (if j < length (m ! i)
                then (case m ! i ! j of None \<Rightarrow> JNull | Some r \<Rightarrow> JRef r)
                else JUndefined)
      else Inl TypeError)"

text \<open>The first pair of loops: is there any empty cell?\<close>

fun anyEmpty :: "RefMap \<Rightarrow> (nat \<times> nat) list \<Rightarrow> error + bool" where
  "anyEmpty m [] = Inr False"
| "anyEmpty m ((i, j) # ps) =
     (case refAt m i j of
        Inl e \<Rightarrow> Inl e
      | Inr v \<Rightarrow> if v = JNull then Inr True else anyEmpty m ps)"

text \<open>
  The second pair of loops: \<open>currentCell === map2048[i][j + 1]\<close> is only evaluated
  when \<open>j < 3\<close>, and \<open>currentCell === map2048[i + 1][j]\<close> only when \<open>i < 3\<close>.
\<close>

fun anyMergable :: "RefMap \<Rightarrow> (nat \<times> nat) list \<Rightarrow> error + bool" where
  "anyMergable m [] = Inr False"
| "anyMergable m ((i, j) # ps) =
     (case refAt m i j of
        Inl e \<Rightarrow> Inl e
      | Inr currentCell \<Rightarrow>
          (case (if j < 3 then refAt m i (j + 1) else Inr JUndefined) of
             Inl e \<Rightarrow> Inl e
           | Inr right \<Rightarrow>
               if j < 3 \<and> currentCell = right then Inr True
               else
                 (case (if i < 3 then refAt m (i + 1) j else Inr JUndefined) of
                    Inl e \<Rightarrow> Inl e
                  | Inr below \<Rightarrow>
                      if i < 3 \<and> currentCell = below then Inr True
                      else anyMergable m ps)))"

definition userLoses :: "RefMap \<Rightarrow> error + bool" where
  "userLoses map2048 =
     (case anyEmpty map2048 indices4 of
        Inl e \<Rightarrow> Inl e
      | Inr True \<Rightarrow> Inr False
      | Inr False \<Rightarrow>
          (case anyMergable map2048 indices4 of
             Inl e \<Rightarrow> Inl e
           | Inr True \<Rightarrow> Inr False
           | Inr False \<Rightarrow> Inr True))"

text \<open>The contents of a grid of addresses.\<close>

definition deref :: "store \<Rightarrow> RefMap \<Rightarrow> Map2048" where
  "deref h m = map (map (map_option h)) m"

section \<open>Reference descriptions\<close>

text \<open>
  The line reducer as the specification words it: empty cells are skipped, and the
  remaining cells are read from the left, two at a time. A pair of equal values
  becomes one \<open>merged\<close> cell of twice the value, which is emitted at once and takes no
  part in any later comparison; otherwise the left cell is emitted as \<open>normal\<close> and the
  right one is compared with its successor. Each merge adds the doubled value to the
  score. The emitted cells are padded on the right with empty cells.
\<close>

fun nonEmpty :: "Cell list \<Rightarrow> CellObject list" where
  "nonEmpty [] = []"
| "nonEmpty (None # row) = nonEmpty row"
| "nonEmpty (Some cell # row) = cell # nonEmpty row"

fun mergePairs :: "CellObject list \<Rightarrow> CellObject list" where
  "mergePairs (a # b # cs) =
     (if cell_value a = cell_value b
      then \<lparr>cell_state = Merged, cell_value = 2 * cell_value a\<rparr> # mergePairs cs
      else a\<lparr>cell_state := Normal\<rparr> # mergePairs (b # cs))"
| "mergePairs [a] = [a\<lparr>cell_state := Normal\<rparr>]"
| "mergePairs [] = []"

fun mergeScore :: "CellObject list \<Rightarrow> int" where
  "mergeScore (a # b # cs) =
     (if cell_value a = cell_value b
      then 2 * cell_value a + mergeScore cs
      else mergeScore (b # cs))"
| "mergeScore [a] = 0"
| "mergeScore [] = 0"

definition padRight :: "nat \<Rightarrow> Cell list \<Rightarrow> Cell list" where
  "padRight n xs = xs @ replicate (n - length xs) None"

text \<open>
  Grids. \<open>isNByM R C m\<close>: \<open>m\<close> has \<open>R\<close> rows of \<open>C\<close> cells each. \<open>rectangular m\<close>: every
  row is as long as the first one. The specification's grids have at least one row
  and at least one column.
\<close>

definition isNByM :: "nat \<Rightarrow> nat \<Rightarrow> 'a list list \<Rightarrow> bool" where
  "isNByM R C m \<longleftrightarrow> length m = R \<and> list_all (\<lambda>row. length row = C) m"

definition rectangular :: "'a list list \<Rightarrow> bool" where
  "rectangular m = list_all (\<lambda>row. length row = length (hd m)) m"

definition tabulate2 :: "nat \<Rightarrow> nat \<Rightarrow> (nat \<Rightarrow> nat \<Rightarrow> 'a) \<Rightarrow> 'a list list" where
  "tabulate2 A B f = map (\<lambda>a. map (f a) [0..<B]) [0..<A]"

text \<open>Angles in degrees, and their sum modulo 360.\<close>

fun angle :: "RotateDegree \<Rightarrow> nat" where
  "angle D0 = 0"
| "angle D90 = 90"
| "angle D180 = 180"
| "angle D270 = 270"

definition degreeOfAngle :: "nat \<Rightarrow> RotateDegree" where
  "degreeOfAngle n =
     (if n mod 360 = 0 then D0
      else if n mod 360 = 90 then D90
      else if n mod 360 = 180 then D180
      else D270)"

definition addDegree :: "RotateDegree \<Rightarrow> RotateDegree \<Rightarrow> RotateDegree" where
  "addDegree a b = degreeOfAngle ((angle a + angle b) mod 360)"

text \<open>
  The move as the specification words it: the forward angle of a direction is
  left 0, up 90, right 180, down 270, and the inverse angle is 360 minus the forward
  angle, modulo 360. A move checks that the grid is rectangular, rotates it by the
  forward angle, reduces every row, stacks the reduced rows, and rotates the stack
  back by the inverse angle; it has moved if some row has, and its score is the sum
  of the rows' scores.
\<close>

fun forwardAngle :: "Direction \<Rightarrow> nat" where
  "forwardAngle Left = 0"
| "forwardAngle Up = 90"
| "forwardAngle Right = 180"
| "forwardAngle Down = 270"

definition inverseAngle :: "Direction \<Rightarrow> nat" where
  "inverseAngle d = (360 - forwardAngle d) mod 360"

definition moveByRotation :: "Map2048 \<Rightarrow> Direction \<Rightarrow> error + Map2048 MoveResult" where
  "moveByRotation m d =
     (if \<not> rectangular m then Inl NotNByM
      else
        (case rotateMapCounterClockwise m (degreeOfAngle (forwardAngle d)) of
           Inl e \<Rightarrow> Inl e
         | Inr rotated \<Rightarrow>
             (let rows = map moveRowLeft rotated
              in case rotateMapCounterClockwise (map result rows) (degreeOfAngle (inverseAngle d)) of
                   Inl e \<Rightarrow> Inl e
                 | Inr back \<Rightarrow>
                     Inr \<lparr>result = back,
                          isMoved = (\<exists>row\<in>set rows. isMoved row),
                          score = sum_list (map score rows)\<rparr>)))"

text \<open>The value of a cell as a tile count: an empty cell counts 0.\<close>

fun cellValue :: "Cell \<Rightarrow> int" where
  "cellValue None = 0"
| "cellValue (Some cell) = cell_value cell"

definition gridSum :: "Map2048 \<Rightarrow> int" where
  "gridSum m = sum_list (map (\<lambda>row. sum_list (map cellValue row)) m)"

definition hasEmpty :: "Map2048 \<Rightarrow> bool" where
  "hasEmpty m = list_ex (list_ex (\<lambda>c. c = None)) m"

text \<open>
  A full board for the terminal detector: sixteen distinct objects, at the
  addresses 0 to 15, holding

    2 4 2 4
    4 2 4 2
    2 4 2 4
    4 2 4 4

  so that the last two cells of the last row hold equal values.
\<close>

definition fullBoard :: RefMap where
  "fullBoard =
     [[Some 0, Some 1, Some 2, Some 3],
      [Some 4, Some 5, Some 6, Some 7],
      [Some 8, Some 9, Some 10, Some 11],
      [Some 12, Some 13, Some 14, Some 15]]"

definition fullBoardStore :: store where
  "fullBoardStore r =
     \<lparr>cell_state = Normal,
      cell_value = [2, 4, 2, 4, 4, 2, 4, 2, 2, 4, 2, 4, 4, 2, 4, 4] ! (r mod 16)\<rparr>"

section \<open>Properties of the line reducer\<close>

lemma foldl_reduceStep_nonEmpty:
  "foldl reduceStep acc row = foldl reduceStep acc (map Some (nonEmpty row))"
  by (induction row arbitrary: acc rule: nonEmpty.induct) simp_all

text \<open>
  The invariant of the \<open>reduce\<close>: started without a pending cell, it appends the
  pairwise merge of the cells it reads to what was emitted before.
\<close>

lemma foldl_reduceStep_mergePairs:
  "finalResult (foldl reduceStep \<lparr>lastCell = None, acc_result = out, acc_score = s\<rparr> (map Some cs))
     = out @ map Some (mergePairs cs)
   \<and> acc_score (foldl reduceStep \<lparr>lastCell = None, acc_result = out, acc_score = s\<rparr> (map Some cs))
     = s + mergeScore cs"
proof (induction cs arbitrary: out s rule: mergePairs.induct)
  case (1 a b cs)
  show ?case
  proof (cases "cell_value a = cell_value b")
    case True
    with 1(1)[OF True, of "out @ [Some \<lparr>cell_state = Merged, cell_value = cell_value b * 2\<rparr>]"
        "s + cell_value b * 2"]
    show ?thesis by (simp add: Let_def)
  next
    case False
    with 1(2)[OF False, of "out @ [Some (a\<lparr>cell_state := Normal\<rparr>)]" s]
    show ?thesis by (simp add: Let_def)
  qed
next
  case (2 a)
  show ?case by (simp add: finalResult_def)
next
  case 3
  show ?case by (simp add: finalResult_def)
qed

lemma length_mergePairs: "length (mergePairs cs) \<le> length cs"
  by (induction cs rule: mergePairs.induct) auto

lemma length_nonEmpty: "length (nonEmpty row) \<le> length row"
  by (induction row rule: nonEmpty.induct) auto

lemma resultRow_padRight: "length xs \<le> n \<Longrightarrow> resultRow n xs = padRight n xs"
  by (auto simp: resultRow_def padRight_def list_eq_iff_nth_eq nth_append)

lemma finalResult_reduced: "finalResult (reduced row) = map Some (mergePairs (nonEmpty row))"
  using foldl_reduceStep_mergePairs[of "[]" 0 "nonEmpty row"]
  by (simp add: reduced_def foldl_reduceStep_nonEmpty[of _ row])

lemma acc_score_reduced: "acc_score (reduced row) = mergeScore (nonEmpty row)"
  using foldl_reduceStep_mergePairs[of "[]" 0 "nonEmpty row"]
  by (simp add: reduced_def foldl_reduceStep_nonEmpty[of _ row])

lemma result_moveRowLeft:
  "result (moveRowLeft row) = padRight (length row) (map Some (mergePairs (nonEmpty row)))"
proof -
  have "length (map Some (mergePairs (nonEmpty row))) \<le> length row"
    using length_mergePairs[of "nonEmpty row"] length_nonEmpty[of row] by simp
  then show ?thesis
    by (simp add: moveRowLeft_def Let_def finalResult_reduced resultRow_padRight)
qed

lemma score_moveRowLeft: "score (moveRowLeft row) = mergeScore (nonEmpty row)"
  by (simp add: moveRowLeft_def Let_def acc_score_reduced)

lemma length_result_moveRowLeft: "length (result (moveRowLeft row)) = length row"
  by (simp add: moveRowLeft_def Let_def resultRow_def)

lemma isMoved_moveRowLeft:
  "isMoved (moveRowLeft row) \<longleftrightarrow>
     (\<exists>i<length row. optValue (row ! i) \<noteq> optValue (result (moveRowLeft row) ! i))"
  by (auto simp: moveRowLeft_def Let_def list_ex_iff)

text \<open>
  C2. For every row, the line reducer returns the pairwise left-to-right merge of
  the row's non-empty cells, padded with empty cells to the row's length: two equal
  neighbours become one cell of doubled value and state \<open>merged\<close>, every merge adds
  the doubled value to the score, and a merged cell is not compared again. In
  particular the row 2, 2, 2, empty becomes 4, 2, empty, empty with \<open>isMoved\<close> true
  and score 4.
\<close>

theorem moveRowLeft_merges_pairwise:
  "result (moveRowLeft row) = padRight (length row) (map Some (mergePairs (nonEmpty row)))
   \<and> score (moveRowLeft row) = mergeScore (nonEmpty row)
   \<and> moveRowLeft [Some \<lparr>cell_state = Normal, cell_value = 2\<rparr>,
                   Some \<lparr>cell_state = Normal, cell_value = 2\<rparr>,
                   Some \<lparr>cell_state = Normal, cell_value = 2\<rparr>, None]
       = \<lparr>result = [Some \<lparr>cell_state = Merged, cell_value = 4\<rparr>,
                    Some \<lparr>cell_state = Normal, cell_value = 2\<rparr>, None, None],
          isMoved = True, score = 4\<rparr>"
proof (intro conjI)
  show "moveRowLeft [Some \<lparr>cell_state = Normal, cell_value = 2\<rparr>,
                   Some \<lparr>cell_state = Normal, cell_value = 2\<rparr>,
                   Some \<lparr>cell_state = Normal, cell_value = 2\<rparr>, None]
       = \<lparr>result = [Some \<lparr>cell_state = Merged, cell_value = 4\<rparr>,
                    Some \<lparr>cell_state = Normal, cell_value = 2\<rparr>, None, None],
          isMoved = True, score = 4\<rparr>"
    by code_simp
qed (rule result_moveRowLeft score_moveRowLeft)+

text \<open>
  C3. For every row, \<open>isMoved\<close> is true exactly when at some index the value of the
  result differs from the value of the original row, where an empty position has
  no value and two empty positions agree; equivalently, when the two rows differ as
  rows of optional values. The state of a cell takes no part in the comparison: a
  row holding one \<open>new\<close> 2 at its left end comes back with that cell \<open>normal\<close> and
  \<open>isMoved\<close> false.
\<close>

theorem moveRowLeft_isMoved_compares_values:
  "(isMoved (moveRowLeft row) \<longleftrightarrow>
      (\<exists>i<length row. optValue (result (moveRowLeft row) ! i) \<noteq> optValue (row ! i)))
   \<and> (isMoved (moveRowLeft row) \<longleftrightarrow>
        map optValue (result (moveRowLeft row)) \<noteq> map optValue row)
   \<and> moveRowLeft [Some \<lparr>cell_state = New, cell_value = 2\<rparr>, None]
       = \<lparr>result = [Some \<lparr>cell_state = Normal, cell_value = 2\<rparr>, None],
          isMoved = False, score = 0\<rparr>"
proof (intro conjI)
  show 1: "isMoved (moveRowLeft row) \<longleftrightarrow>
      (\<exists>i<length row. optValue (result (moveRowLeft row) ! i) \<noteq> optValue (row ! i))"
    unfolding isMoved_moveRowLeft by metis
  show "isMoved (moveRowLeft row) \<longleftrightarrow> map optValue (result (moveRowLeft row)) \<noteq> map optValue row"
    unfolding 1 by (auto simp: list_eq_iff_nth_eq length_result_moveRowLeft)
  show "moveRowLeft [Some \<lparr>cell_state = New, cell_value = 2\<rparr>, None]
       = \<lparr>result = [Some \<lparr>cell_state = Normal, cell_value = 2\<rparr>, None],
          isMoved = False, score = 0\<rparr>"
    by code_simp
qed

section \<open>Properties of the rotation\<close>

lemma isNByM_nth: "isNByM R C m \<Longrightarrow> r < R \<Longrightarrow> length (m ! r) = C"
  by (auto simp: isNByM_def list_all_length)

lemma isNByM_length: "isNByM R C m \<Longrightarrow> length m = R"
  by (simp add: isNByM_def)

lemma isNByM_map: "isNByM R C m \<Longrightarrow> isNByM R C (map (map f) m)"
  by (auto simp: isNByM_def list_all_iff)

lemma isNByM_tabulate2: "isNByM A B (tabulate2 A B f)"
  by (simp add: isNByM_def list_all_iff tabulate2_def)

lemma tabulate2_nth: "a < A \<Longrightarrow> b < B \<Longrightarrow> tabulate2 A B f ! a ! b = f a b"
  by (simp add: tabulate2_def)

lemma grid_eqI:
  assumes "isNByM R C m" "isNByM R C m'"
    and "\<And>r c. r < R \<Longrightarrow> c < C \<Longrightarrow> m ! r ! c = m' ! r ! c"
  shows "m = m'"
proof (rule nth_equalityI)
  show "length m = length m'" using assms by (simp add: isNByM_def)
  fix r assume "r < length m"
  then have r: "r < R" using assms by (simp add: isNByM_def)
  show "m ! r = m' ! r"
    by (rule nth_equalityI) (use r assms in \<open>auto simp: isNByM_nth\<close>)
qed

lemma tabulate2_eqI:
  "isNByM A B m' \<Longrightarrow> (\<And>a b. a < A \<Longrightarrow> b < B \<Longrightarrow> f a b = m' ! a ! b) \<Longrightarrow> tabulate2 A B f = m'"
  by (rule grid_eqI[where R = A and C = B]) (auto simp: isNByM_tabulate2 tabulate2_nth)

lemma collect_map_Inr:
  "(\<And>x. x \<in> set xs \<Longrightarrow> f x = Inr (g x)) \<Longrightarrow> collect (map f xs) = Inr (map g xs)"
  by (induction xs) auto

lemma arrayFrom_Inr:
  "(\<And>i. i < n \<Longrightarrow> f i = Inr (g i)) \<Longrightarrow> arrayFrom n f = Inr (map g [0..<n])"
  unfolding arrayFrom_def by (rule collect_map_Inr) simp

lemma cellAt_Inr: "isNByM R C m \<Longrightarrow> r < R \<Longrightarrow> c < C \<Longrightarrow> cellAt m r c = Inr (m ! r ! c)"
  by (simp add: cellAt_def isNByM_nth isNByM_length)

text \<open>On a grid with at least one row every read of the rotation is in range.\<close>

lemma rotate_tab:
  assumes "isNByM R C m" "0 < R"
  shows "rotateMapCounterClockwise m D0 = Inr m"
    and "rotateMapCounterClockwise m D90 = Inr (tabulate2 C R (\<lambda>c r. m ! r ! (C - c - 1)))"
    and "rotateMapCounterClockwise m D180
           = Inr (tabulate2 R C (\<lambda>r c. m ! (R - r - 1) ! (C - c - 1)))"
    and "rotateMapCounterClockwise m D270 = Inr (tabulate2 C R (\<lambda>c r. m ! (R - r - 1) ! c))"
proof -
  from assms obtain row0 rest where m: "m = row0 # rest"
    by (cases m) (auto simp: isNByM_def)
  have l: "length m = R" "length row0 = C"
    using assms isNByM_nth[OF assms(1), of 0] by (auto simp: isNByM_def m)
  show "rotateMapCounterClockwise m D0 = Inr m"
    by (simp add: rotateMapCounterClockwise_def m)
  have "arrayFrom C (\<lambda>columnIndex. arrayFrom R (\<lambda>rowIndex. cellAt m rowIndex (C - columnIndex - 1)))
      = Inr (map (\<lambda>c. map (\<lambda>r. m ! r ! (C - c - 1)) [0..<R]) [0..<C])"
    by (intro arrayFrom_Inr cellAt_Inr[OF assms(1)]) auto
  then show "rotateMapCounterClockwise m D90 = Inr (tabulate2 C R (\<lambda>c r. m ! r ! (C - c - 1)))"
    using l by (simp add: rotateMapCounterClockwise_def m tabulate2_def)
  have "arrayFrom R (\<lambda>rowIndex. arrayFrom C (\<lambda>columnIndex.
          cellAt m (R - rowIndex - 1) (C - columnIndex - 1)))
      = Inr (map (\<lambda>r. map (\<lambda>c. m ! (R - r - 1) ! (C - c - 1)) [0..<C]) [0..<R])"
    by (intro arrayFrom_Inr cellAt_Inr[OF assms(1)]) auto
  then show "rotateMapCounterClockwise m D180
           = Inr (tabulate2 R C (\<lambda>r c. m ! (R - r - 1) ! (C - c - 1)))"
    using l by (simp add: rotateMapCounterClockwise_def m tabulate2_def)
  have "arrayFrom C (\<lambda>columnIndex. arrayFrom R (\<lambda>rowIndex. cellAt m (R - rowIndex - 1) columnIndex))
      = Inr (map (\<lambda>c. map (\<lambda>r. m ! (R - r - 1) ! c) [0..<R]) [0..<C])"
    by (intro arrayFrom_Inr cellAt_Inr[OF assms(1)]) auto
  then show "rotateMapCounterClockwise m D270 = Inr (tabulate2 C R (\<lambda>c r. m ! (R - r - 1) ! c))"
    using l by (simp add: rotateMapCounterClockwise_def m tabulate2_def)
qed

lemma diff_Suc_diff_Suc: "b < C \<Longrightarrow> C - Suc (C - Suc b) = b"
  by arith

lemma addDegree_simps:
  "addDegree D0 b = b" "addDegree a D0 = a"
  "addDegree D90 D90 = D180" "addDegree D90 D180 = D270" "addDegree D90 D270 = D0"
  "addDegree D180 D90 = D270" "addDegree D180 D180 = D0" "addDegree D180 D270 = D90"
  "addDegree D270 D90 = D0" "addDegree D270 D180 = D90" "addDegree D270 D270 = D180"
  by (cases a; cases b; simp add: addDegree_def degreeOfAngle_def)+

lemma rotate_compose:
  assumes "isNByM R C m" "0 < R" "0 < C"
  shows "\<exists>m'. rotateMapCounterClockwise m a = Inr m'
            \<and> rotateMapCounterClockwise m' b = rotateMapCounterClockwise m (addDegree a b)"
proof -
  note rt = rotate_tab[OF isNByM_tabulate2] rotate_tab[OF assms(1,2)]
  show ?thesis
    using assms
    apply (cases a; cases b; simp add: rt addDegree_simps)
            apply (rule tabulate2_eqI; simp add: isNByM_tabulate2 tabulate2_nth diff_Suc_diff_Suc)+
    done
qed

lemma rotate_map_map:
  assumes "isNByM R C m" "0 < R"
  shows "rotateMapCounterClockwise (map (map f) m) d
           = map_sum id (map (map f)) (rotateMapCounterClockwise m d)"
proof -
  have g: "isNByM R C (map (map f) m)"
    by (rule isNByM_map[OF assms(1)])
  have nth: "\<And>r c. r < R \<Longrightarrow> c < C \<Longrightarrow> map (map f) m ! r ! c = f (m ! r ! c)"
    using assms(1) by (simp add: isNByM_nth isNByM_length)
  show ?thesis
    using assms(2)
    by (cases d) (auto simp: rotate_tab[OF g assms(2)] rotate_tab[OF assms] tabulate2_def nth)
qed

lemma isNByM_rotate:
  assumes "isNByM R C m" "0 < R"
  shows "\<exists>m'. rotateMapCounterClockwise m d = Inr m'
           \<and> (if d = D0 \<or> d = D180 then isNByM R C m' else isNByM C R m')"
  using assms(1) by (cases d) (simp_all add: rotate_tab[OF assms] isNByM_tabulate2)

text \<open>
  C5. For every rectangular grid with at least one row and one column, rotating
  by 90 degrees and then by 270 degrees gives the grid back, rotating by 0 degrees
  returns the grid, and rotating by \<open>a\<close> and then by \<open>b\<close> is rotating by \<open>a + b\<close>
  modulo 360: the rotations act as the cyclic group of order 4.
\<close>

theorem rotate_group_action:
  assumes "isNByM R C m" "0 < R" "0 < C"
  shows "(\<exists>m'. rotateMapCounterClockwise m D90 = Inr m'
               \<and> rotateMapCounterClockwise m' D270 = Inr m)
       \<and> rotateMapCounterClockwise m D0 = Inr m
       \<and> (\<forall>a b. \<exists>m'. rotateMapCounterClockwise m a = Inr m'
               \<and> rotateMapCounterClockwise m' b = rotateMapCounterClockwise m (addDegree a b))"
proof (intro conjI allI)
  show "rotateMapCounterClockwise m D0 = Inr m"
    by (rule rotate_tab(1)[OF assms(1,2)])
  then show "\<exists>m'. rotateMapCounterClockwise m D90 = Inr m'
               \<and> rotateMapCounterClockwise m' D270 = Inr m"
    using rotate_compose[OF assms, of D90 D270] by (simp add: addDegree_simps)
  show "\<exists>m'. rotateMapCounterClockwise m a = Inr m'
          \<and> rotateMapCounterClockwise m' b = rotateMapCounterClockwise m (addDegree a b)" for a b
    by (rule rotate_compose[OF assms])
qed

theorem rotate_group_action_witness:
  "isNByM 2 3 [[1, 2, 3], [4, 5, 6 :: nat]]
   \<and> rotateMapCounterClockwise [[1, 2, 3], [4, 5, 6 :: nat]] D90 = Inr [[3, 6], [2, 5], [1, 4]]
   \<and> rotateMapCounterClockwise [[3, 6], [2, 5], [1, 4 :: nat]] D270 = Inr [[1, 2, 3], [4, 5, 6]]
   \<and> (\<exists>m'. rotateMapCounterClockwise [[1, 2, 3], [4, 5, 6 :: nat]] D90 = Inr m'
          \<and> rotateMapCounterClockwise m' D270 = Inr [[1, 2, 3], [4, 5, 6]])"
proof -
  have h: "isNByM 2 3 [[1, 2, 3], [4, 5, 6 :: nat]]"
    by (simp add: isNByM_def)
  have 1: "rotateMapCounterClockwise [[1, 2, 3], [4, 5, 6 :: nat]] D90 = Inr [[3, 6], [2, 5], [1, 4]]"
    by code_simp
  have 2: "rotateMapCounterClockwise [[3, 6], [2, 5], [1, 4 :: nat]] D270 = Inr [[1, 2, 3], [4, 5, 6]]"
    by code_simp
  from rotate_group_action[OF h] have
    "\<exists>m'. rotateMapCounterClockwise [[1, 2, 3], [4, 5, 6 :: nat]] D90 = Inr m'
          \<and> rotateMapCounterClockwise m' D270 = Inr [[1, 2, 3], [4, 5, 6]]"
    by simp
  with h 1 2 show ?thesis by simp
qed

text \<open>
  C6. For every rectangular grid of \<open>R\<close> rows and \<open>C\<close> columns, \<open>R\<close> at least 1, the
  rotation by 90 degrees has \<open>C\<close> rows and \<open>R\<close> columns with \<open>output[c][r] =
  input[r][C-1-c]\<close>, the rotation by 180 degrees has \<open>R\<close> rows and \<open>C\<close> columns with
  \<open>output[r][c] = input[R-1-r][C-1-c]\<close>, and the rotation by 270 degrees has \<open>C\<close> rows
  and \<open>R\<close> columns with \<open>output[c][r] = input[R-1-r][c]\<close>.
\<close>

theorem rotate_index_remapping:
  assumes "isNByM R C m" "0 < R"
  shows "(\<exists>out. rotateMapCounterClockwise m D90 = Inr out \<and> isNByM C R out
              \<and> (\<forall>c<C. \<forall>r<R. out ! c ! r = m ! r ! (C - 1 - c)))
       \<and> (\<exists>out. rotateMapCounterClockwise m D180 = Inr out \<and> isNByM R C out
              \<and> (\<forall>r<R. \<forall>c<C. out ! r ! c = m ! (R - 1 - r) ! (C - 1 - c)))
       \<and> (\<exists>out. rotateMapCounterClockwise m D270 = Inr out \<and> isNByM C R out
              \<and> (\<forall>c<C. \<forall>r<R. out ! c ! r = m ! (R - 1 - r) ! c))"
  by (simp add: rotate_tab[OF assms] isNByM_tabulate2 tabulate2_nth)

theorem rotate_index_remapping_witness:
  "isNByM 2 3 [[1, 2, 3], [4, 5, 6 :: nat]]
   \<and> (\<exists>out. rotateMapCounterClockwise [[1, 2, 3], [4, 5, 6 :: nat]] D90 = Inr out \<and> isNByM 3 2 out
          \<and> out ! 0 ! 1 = [[1, 2, 3], [4, 5, 6]] ! 1 ! 2)
   \<and> rotateMapCounterClockwise [[1, 2, 3], [4, 5, 6 :: nat]] D180 = Inr [[6, 5, 4], [3, 2, 1]]
   \<and> rotateMapCounterClockwise [[1, 2, 3], [4, 5, 6 :: nat]] D270 = Inr [[4, 1], [5, 2], [6, 3]]"
proof -
  have h: "isNByM 2 3 [[1, 2, 3], [4, 5, 6 :: nat]]"
    by (simp add: isNByM_def)
  from rotate_index_remapping[OF h] obtain out where
    "rotateMapCounterClockwise [[1, 2, 3], [4, 5, 6 :: nat]] D90 = Inr out" "isNByM 3 2 out"
    "\<forall>c<3. \<forall>r<2. out ! c ! r = [[1, 2, 3], [4, 5, 6]] ! r ! (3 - 1 - c)"
    by auto
  then have "\<exists>out. rotateMapCounterClockwise [[1, 2, 3], [4, 5, 6 :: nat]] D90 = Inr out
          \<and> isNByM 3 2 out \<and> out ! 0 ! 1 = [[1, 2, 3], [4, 5, 6]] ! 1 ! 2"
    by auto
  moreover have "rotateMapCounterClockwise [[1, 2, 3], [4, 5, 6 :: nat]] D180 = Inr [[6, 5, 4], [3, 2, 1]]"
    by code_simp
  moreover have "rotateMapCounterClockwise [[1, 2, 3], [4, 5, 6 :: nat]] D270 = Inr [[4, 1], [5, 2], [6, 3]]"
    by code_simp
  ultimately show ?thesis using h by simp
qed

section \<open>Properties of the move engine\<close>

lemma result_moveLeft: "result (moveLeft m) = map (\<lambda>row. result (moveRowLeft row)) m"
  by (simp add: moveLeft_def Let_def comp_def)

lemma isMoved_moveLeft: "isMoved (moveLeft m) \<longleftrightarrow> (\<exists>row\<in>set m. isMoved (moveRowLeft row))"
  by (auto simp: moveLeft_def Let_def list_ex_iff)

lemma foldl_add: "foldl (\<lambda>acc x. acc + f x) a xs = a + sum_list (map f xs)" for a :: int
  by (induction xs arbitrary: a) simp_all

lemma score_moveLeft: "score (moveLeft m) = (\<Sum>row\<leftarrow>m. score (moveRowLeft row))"
  by (simp add: moveLeft_def Let_def foldl_add comp_def)

lemma isNByM_moveLeft: "isNByM R C m \<Longrightarrow> isNByM R C (result (moveLeft m))"
  by (auto simp: isNByM_def result_moveLeft list_all_iff length_result_moveRowLeft)

lemma validate_isNByM: "isNByM R C m \<Longrightarrow> 0 < R \<Longrightarrow> validateMapIsNByM m = Inr True"
  by (cases m) (auto simp: validateMapIsNByM_def isNByM_def list_all_iff)

lemma validate_rectangular: "m \<noteq> [] \<Longrightarrow> validateMapIsNByM m = Inr (rectangular m)"
  by (cases m) (simp_all add: validateMapIsNByM_def rectangular_def)

lemma rectangular_isNByM:
  "m \<noteq> [] \<Longrightarrow> rectangular m \<longleftrightarrow> isNByM (length m) (length (hd m)) m"
  by (simp add: rectangular_def isNByM_def)

text \<open>On a grid with at least one row and one column every step of a move succeeds.\<close>

lemma move_grid:
  assumes "isNByM R C m" "0 < R" "0 < C"
  obtains g1 g2 R' C' where
    "rotateMapCounterClockwise m (rotateDegreeMap d) = Inr g1"
    "isNByM R' C' g1" "0 < R'" "0 < C'"
    "rotateMapCounterClockwise (result (moveLeft g1)) (revertDegreeMap d) = Inr g2"
    "moveMapIn2048Rule m d
       = Inr \<lparr>result = g2, isMoved = isMoved (moveLeft g1), score = score (moveLeft g1)\<rparr>"
proof -
  from isNByM_rotate[OF assms(1,2), of "rotateDegreeMap d"]
  obtain g1 where g1: "rotateMapCounterClockwise m (rotateDegreeMap d) = Inr g1"
    and sh: "isNByM R C g1 \<or> isNByM C R g1"
    by (auto split: if_splits)
  from sh have "\<exists>R' C'. isNByM R' C' g1 \<and> 0 < R' \<and> 0 < C'"
    using assms(2,3) by blast
  then obtain R' C' where g: "isNByM R' C' g1" "0 < R'" "0 < C'"
    by blast
  from isNByM_rotate[OF isNByM_moveLeft[OF g(1)] g(2), of "revertDegreeMap d"]
  obtain g2 where g2: "rotateMapCounterClockwise (result (moveLeft g1)) (revertDegreeMap d) = Inr g2"
    by blast
  have mv: "moveMapIn2048Rule m d
       = Inr \<lparr>result = g2, isMoved = isMoved (moveLeft g1), score = score (moveLeft g1)\<rparr>"
    unfolding moveMapIn2048Rule_def validate_isNByM[OF assms(1,2)] g1
    by (simp add: g2 Let_def)
  show thesis
    by (rule that[OF g1 g g2 mv])
qed

lemma degree_tables:
  "rotateDegreeMap d = degreeOfAngle (forwardAngle d)"
  "revertDegreeMap d = degreeOfAngle (inverseAngle d)"
  by (cases d; simp add: degreeOfAngle_def inverseAngle_def)+

lemma addDegree_revert: "addDegree (rotateDegreeMap d) (revertDegreeMap d) = D0"
  by (cases d) (simp_all add: addDegree_simps)

lemma rotate_no_rows: "rotateMapCounterClockwise [] degree = Inl TypeError"
  by (simp add: rotateMapCounterClockwise_def)

lemma not_rectangular_NotNByM:
  assumes "\<not> rectangular m"
  shows "moveMapIn2048Rule m d = Inl NotNByM"
proof -
  from assms have "m \<noteq> []" by (auto simp: rectangular_def)
  then show ?thesis
    using assms by (simp add: moveMapIn2048Rule_def validate_rectangular)
qed

lemma rectangular_returns:
  assumes "m \<noteq> []" "hd m \<noteq> []" "rectangular m"
  shows "\<exists>r. moveMapIn2048Rule m d = Inr r"
proof -
  have g: "isNByM (length m) (length (hd m)) m" "0 < length m" "0 < length (hd m)"
    using assms by (simp_all add: rectangular_isNByM)
  show ?thesis
    by (rule move_grid[OF g, where d = d]) simp
qed

text \<open>
  Arrays without rows or without columns are not grids of the specification. The
  move throws a \<open>TypeError\<close> on an array without rows, at \<open>map[0].length\<close>, and on an
  array of rows without cells when the direction is up or down, where the rotated
  array has no rows and is rotated back.
\<close>

lemma move_no_rows: "moveMapIn2048Rule [] d = Inl TypeError"
  by (simp add: moveMapIn2048Rule_def validateMapIsNByM_def)

lemma move_no_columns:
  "moveMapIn2048Rule [[]] Up = Inl TypeError"
  "moveMapIn2048Rule [[]] Down = Inl TypeError"
  "moveMapIn2048Rule [[]] Left = Inr \<lparr>result = [[]], isMoved = False, score = 0\<rparr>"
  "moveMapIn2048Rule [[]] Right = Inr \<lparr>result = [[]], isMoved = False, score = 0\<rparr>"
  by code_simp+

lemma isNByM_no_cells: "isNByM R 0 m \<Longrightarrow> m = replicate R []"
  by (auto simp: isNByM_def list_all_iff intro!: replicate_eqI)

lemma moveRowLeft_Nil: "moveRowLeft [] = \<lparr>result = [], isMoved = False, score = 0\<rparr>"
  by code_simp

lemma moveLeft_Nil: "moveLeft [] = \<lparr>result = [], isMoved = False, score = 0\<rparr>"
  by code_simp

lemma moveLeft_no_cells:
  "moveLeft (replicate R []) = \<lparr>result = replicate R [], isMoved = False, score = 0\<rparr>"
  by (simp add: moveLeft_def Let_def moveRowLeft_Nil list_ex_iff foldl_add sum_list_replicate)

lemma tabulate2_no_cells: "tabulate2 R 0 f = replicate R []"
  by (simp add: tabulate2_def map_replicate_const)

lemma tabulate2_no_rows: "tabulate2 0 R f = []"
  by (simp add: tabulate2_def)

lemma move_no_cells:
  assumes "isNByM R 0 m" "0 < R"
  shows "moveMapIn2048Rule m d
           = (if d = Left \<or> d = Right then Inr \<lparr>result = m, isMoved = False, score = 0\<rparr>
              else Inl TypeError)"
proof -
  have m: "m = replicate R []" by (rule isNByM_no_cells[OF assms(1)])
  have g: "isNByM R 0 (replicate R [])" by (simp add: isNByM_def list_all_iff)
  note rt = rotate_tab[OF g assms(2)]
  show ?thesis
    unfolding m moveMapIn2048Rule_def validate_isNByM[OF g assms(2)]
    by (cases d)
      (simp_all add: rt tabulate2_no_cells tabulate2_no_rows moveLeft_no_cells moveLeft_Nil
        rotate_no_rows Let_def)
qed

text \<open>
  A move that returns was made on a grid with at least one row and one column, or
  on rows without cells, which it returns as they are.
\<close>

lemma move_Inr_cases:
  assumes "moveMapIn2048Rule m d = Inr r"
  obtains (grid) R C where "isNByM R C m" "0 < R" "0 < C"
  | (no_cells) "result r = m" "\<not> isMoved r" "score r = 0"
proof (cases "m = []")
  case True
  with assms show ?thesis by (simp add: move_no_rows)
next
  case ne: False
  show ?thesis
  proof (cases "rectangular m")
    case False
    with assms show ?thesis by (simp add: not_rectangular_NotNByM)
  next
    case True
    with ne have g: "isNByM (length m) (length (hd m)) m" "0 < length m"
      by (simp_all add: rectangular_isNByM)
    show ?thesis
    proof (cases "hd m = []")
      case False
      show ?thesis
        by (rule grid[of "length m" "length (hd m)"]) (use g False in simp_all)
    next
      case True
      with g have "isNByM (length m) 0 m" by simp
      from move_no_cells[OF this g(2), of d] assms
      show ?thesis by (intro no_cells) (auto split: if_splits)
    qed
  qed
qed

lemma move_eq_moveByRotation: "moveMapIn2048Rule m d = moveByRotation m d"
proof (cases "m = []")
  case True
  then show ?thesis
    by (simp add: moveMapIn2048Rule_def moveByRotation_def validateMapIsNByM_def rectangular_def
        rotate_no_rows)
next
  case False
  have "isMoved (moveLeft g) \<longleftrightarrow> (\<exists>row\<in>set (map moveRowLeft g). isMoved row)" for g
    by (simp add: isMoved_moveLeft)
  moreover have "score (moveLeft g) = sum_list (map score (map moveRowLeft g))" for g
    by (simp add: score_moveLeft comp_def)
  moreover have "result (moveLeft g) = map result (map moveRowLeft g)" for g
    by (simp add: result_moveLeft)
  ultimately show ?thesis
    unfolding moveMapIn2048Rule_def moveByRotation_def validate_rectangular[OF False] degree_tables
    by (simp add: Let_def split: sum.splits)
qed

text \<open>
  C7. For every grid and direction the move is: check that the grid is
  rectangular, rotate it by the forward angle of the direction (left 0, up 90,
  right 180, down 270), reduce every row leftward, stack the reduced rows and rotate
  the stack back by the inverse angle, 360 minus the forward angle modulo 360
  (left 0, up 270, right 180, down 90); \<open>isMoved\<close> holds if and only if some row
  moved, and \<open>score\<close> is the sum of the rows' scores.
\<close>

theorem move_is_rotate_reduce_rotate_back:
  "moveMapIn2048Rule m d = moveByRotation m d
   \<and> angle (rotateDegreeMap d) = forwardAngle d
   \<and> angle (revertDegreeMap d) = (360 - forwardAngle d) mod 360
   \<and> map inverseAngle [Left, Up, Right, Down] = [0, 270, 180, 90]
   \<and> moveMapIn2048Rule
        [[Some \<lparr>cell_state = New, cell_value = 2\<rparr>, None],
         [Some \<lparr>cell_state = Normal, cell_value = 2\<rparr>, Some \<lparr>cell_state = Normal, cell_value = 4\<rparr>]] Up
       = Inr \<lparr>result =
                [[Some \<lparr>cell_state = Merged, cell_value = 4\<rparr>,
                  Some \<lparr>cell_state = Normal, cell_value = 4\<rparr>],
                 [None, None]],
              isMoved = True, score = 4\<rparr>"
proof (intro conjI)
  show "moveMapIn2048Rule m d = moveByRotation m d"
    by (rule move_eq_moveByRotation)
  show "angle (rotateDegreeMap d) = forwardAngle d"
    by (cases d) simp_all
  show "angle (revertDegreeMap d) = (360 - forwardAngle d) mod 360"
    by (cases d) simp_all
  show "map inverseAngle [Left, Up, Right, Down] = [0, 270, 180, 90]"
    by (simp add: inverseAngle_def)
  show "moveMapIn2048Rule
        [[Some \<lparr>cell_state = New, cell_value = 2\<rparr>, None],
         [Some \<lparr>cell_state = Normal, cell_value = 2\<rparr>, Some \<lparr>cell_state = Normal, cell_value = 4\<rparr>]] Up
       = Inr \<lparr>result =
                [[Some \<lparr>cell_state = Merged, cell_value = 4\<rparr>,
                  Some \<lparr>cell_state = Normal, cell_value = 4\<rparr>],
                 [None, None]],
              isMoved = True, score = 4\<rparr>"
    by code_simp
qed

lemma values_unmoved:
  assumes "\<not> isMoved (moveRowLeft row)"
  shows "map optValue (result (moveRowLeft row)) = map optValue row"
proof (rule nth_equalityI)
  show "length (map optValue (result (moveRowLeft row))) = length (map optValue row)"
    by (simp add: length_result_moveRowLeft)
  fix i assume "i < length (map optValue (result (moveRowLeft row)))"
  then have i: "i < length row" by (simp add: length_result_moveRowLeft)
  with assms have "optValue (row ! i) = optValue (result (moveRowLeft row) ! i)"
    unfolding isMoved_moveRowLeft by blast
  with i show "map optValue (result (moveRowLeft row)) ! i = map optValue row ! i"
    by (simp add: length_result_moveRowLeft)
qed

lemma values_move_unmoved:
  assumes "isNByM R C m" "0 < R" "0 < C"
  shows "\<exists>r. moveMapIn2048Rule m d = Inr r \<and> isNByM R C (result r)
            \<and> (\<not> isMoved r \<longrightarrow> map (map optValue) (result r) = map (map optValue) m)"
proof (rule move_grid[OF assms, where d = d])
  fix g1 g2 R' C'
  assume g1: "rotateMapCounterClockwise m (rotateDegreeMap d) = Inr g1"
    and g: "isNByM R' C' g1" "0 < R'" "0 < C'"
    and g2: "rotateMapCounterClockwise (result (moveLeft g1)) (revertDegreeMap d) = Inr g2"
    and mv: "moveMapIn2048Rule m d
       = Inr \<lparr>result = g2, isMoved = isMoved (moveLeft g1), score = score (moveLeft g1)\<rparr>"
  let ?u = "map (map (\<lambda>c. ()))"
  have shape: "isNByM R C g2"
  proof -
    have gu: "isNByM R C (?u m)" by (rule isNByM_map[OF assms(1)])
    have "?u (result (moveLeft g1)) = ?u g1"
      by (simp add: result_moveLeft list_eq_iff_nth_eq length_result_moveRowLeft)
    moreover have "rotateMapCounterClockwise (?u m) (rotateDegreeMap d) = Inr (?u g1)"
      by (simp add: rotate_map_map[OF assms(1,2)] g1)
    moreover have "rotateMapCounterClockwise (?u (result (moveLeft g1))) (revertDegreeMap d)
                     = Inr (?u g2)"
      by (simp add: rotate_map_map[OF isNByM_moveLeft[OF g(1)] g(2)] g2)
    moreover from rotate_compose[OF gu assms(2,3), of "rotateDegreeMap d" "revertDegreeMap d"]
    have "\<exists>m'. rotateMapCounterClockwise (?u m) (rotateDegreeMap d) = Inr m'
            \<and> rotateMapCounterClockwise m' (revertDegreeMap d) = Inr (?u m)"
      by (simp add: addDegree_revert rotate_tab(1)[OF gu assms(2)])
    ultimately have "?u g2 = ?u m" by auto
    then have "isNByM R C (?u g2)" using gu by simp
    then show ?thesis by (simp add: isNByM_def list_all_iff)
  qed
  have "map (map optValue) g2 = map (map optValue) m" if nm: "\<not> isMoved (moveLeft g1)"
  proof -
    let ?v = "map (map optValue)"
    have "\<And>row. row \<in> set g1 \<Longrightarrow> map optValue (result (moveRowLeft row)) = map optValue row"
      using nm unfolding isMoved_moveLeft by (blast intro: values_unmoved)
    then have same: "?v (result (moveLeft g1)) = ?v g1"
      by (simp add: result_moveLeft)
    have gv: "isNByM R C (?v m)" by (rule isNByM_map[OF assms(1)])
    have 1: "rotateMapCounterClockwise (?v m) (rotateDegreeMap d) = Inr (?v g1)"
      by (simp add: rotate_map_map[OF assms(1,2)] g1)
    have 2: "rotateMapCounterClockwise (?v (result (moveLeft g1))) (revertDegreeMap d) = Inr (?v g2)"
      by (simp add: rotate_map_map[OF isNByM_moveLeft[OF g(1)] g(2)] g2)
    from rotate_compose[OF gv assms(2,3), of "rotateDegreeMap d" "revertDegreeMap d"]
    have "rotateMapCounterClockwise (?v g1) (revertDegreeMap d) = Inr (?v m)"
      by (simp add: 1 addDegree_revert rotate_tab(1)[OF gv assms(2)])
    with 2 same show ?thesis by simp
  qed
  then show ?thesis by (simp add: mv shape)
qed

text \<open>
  C4. For every grid and direction, if the move returns a result whose \<open>isMoved\<close>
  is false, then the result grid equals the input value for value: it has the same
  shape, and at every position it is empty exactly when the input is and otherwise
  holds the same value. On every rectangular grid with at least one row and one
  column the move does return a result.
\<close>

theorem unmoved_result_equals_input:
  "(moveMapIn2048Rule m d = Inr r \<and> \<not> isMoved r \<longrightarrow>
      map (map optValue) (result r) = map (map optValue) m
      \<and> length (result r) = length m
      \<and> (\<forall>i<length m. length (result r ! i) = length (m ! i)
            \<and> (\<forall>j<length (m ! i). (result r ! i ! j = None \<longleftrightarrow> m ! i ! j = None)
                   \<and> optValue (result r ! i ! j) = optValue (m ! i ! j))))
   \<and> (isNByM R C m \<and> 0 < R \<and> 0 < C \<longrightarrow> (\<exists>r'. moveMapIn2048Rule m d = Inr r'))"
proof (intro conjI impI)
  assume "isNByM R C m \<and> 0 < R \<and> 0 < C"
  with values_move_unmoved[of R C m d] show "\<exists>r'. moveMapIn2048Rule m d = Inr r'"
    by blast
next
  assume a: "moveMapIn2048Rule m d = Inr r \<and> \<not> isMoved r"
  then have mv: "moveMapIn2048Rule m d = Inr r" and nm: "\<not> isMoved r" by simp_all
  from mv show v: "map (map optValue) (result r) = map (map optValue) m"
  proof (cases rule: move_Inr_cases)
    case (grid R C)
    from values_move_unmoved[OF grid, of d] mv nm show ?thesis by auto
  next
    case no_cells
    then show ?thesis by simp
  qed
  from v have "length (map (map optValue) (result r)) = length (map (map optValue) m)"
    by simp
  then show len: "length (result r) = length m" by simp
  show "\<forall>i<length m. length (result r ! i) = length (m ! i)
            \<and> (\<forall>j<length (m ! i). (result r ! i ! j = None \<longleftrightarrow> m ! i ! j = None)
                   \<and> optValue (result r ! i ! j) = optValue (m ! i ! j))"
  proof (intro allI impI)
    fix i assume i: "i < length m"
    from v have "map (map optValue) (result r) ! i = map (map optValue) m ! i" by simp
    with i len have row: "map optValue (result r ! i) = map optValue (m ! i)" by simp
    then have "length (map optValue (result r ! i)) = length (map optValue (m ! i))" by simp
    then have l: "length (result r ! i) = length (m ! i)" by simp
    have "(result r ! i ! j = None \<longleftrightarrow> m ! i ! j = None)
            \<and> optValue (result r ! i ! j) = optValue (m ! i ! j)" if "j < length (m ! i)" for j
    proof -
      from row have "map optValue (result r ! i) ! j = map optValue (m ! i) ! j" by simp
      with that l have "optValue (result r ! i ! j) = optValue (m ! i ! j)" by simp
      then show ?thesis by (auto simp: optValue_def)
    qed
    with l show "length (result r ! i) = length (m ! i)
            \<and> (\<forall>j<length (m ! i). (result r ! i ! j = None \<longleftrightarrow> m ! i ! j = None)
                   \<and> optValue (result r ! i ! j) = optValue (m ! i ! j))"
      by blast
  qed
qed

theorem unmoved_result_equals_input_witness:
  "isNByM 2 2 [[Some \<lparr>cell_state = New, cell_value = 2\<rparr>, None],
               [Some \<lparr>cell_state = Merged, cell_value = 4\<rparr>, None]]
   \<and> moveMapIn2048Rule [[Some \<lparr>cell_state = New, cell_value = 2\<rparr>, None],
                        [Some \<lparr>cell_state = Merged, cell_value = 4\<rparr>, None]] Left
       = Inr \<lparr>result = [[Some \<lparr>cell_state = Normal, cell_value = 2\<rparr>, None],
                        [Some \<lparr>cell_state = Normal, cell_value = 4\<rparr>, None]],
              isMoved = False, score = 0\<rparr>
   \<and> map (map optValue) [[Some \<lparr>cell_state = Normal, cell_value = 2\<rparr>, None],
                          [Some \<lparr>cell_state = Normal, cell_value = 4\<rparr>, None]]
       = map (map optValue) [[Some \<lparr>cell_state = New, cell_value = 2\<rparr>, None],
                              [Some \<lparr>cell_state = Merged, cell_value = 4\<rparr>, None]]
   \<and> (\<exists>r'. moveMapIn2048Rule [[Some \<lparr>cell_state = New, cell_value = 2\<rparr>, None],
                        [Some \<lparr>cell_state = Merged, cell_value = 4\<rparr>, None]] Left = Inr r')"
proof -
  let ?m = "[[Some \<lparr>cell_state = New, cell_value = 2\<rparr>, None],
             [Some \<lparr>cell_state = Merged, cell_value = 4\<rparr>, None]]"
  let ?r = "\<lparr>result = [[Some \<lparr>cell_state = Normal, cell_value = 2\<rparr>, None],
                        [Some \<lparr>cell_state = Normal, cell_value = 4\<rparr>, None]],
              isMoved = False, score = 0\<rparr>"
  have h: "isNByM 2 2 ?m" by (simp add: isNByM_def)
  have e: "moveMapIn2048Rule ?m Left = Inr ?r"
    by code_simp
  from unmoved_result_equals_input[of ?m Left ?r 2 2] h e
  have "map (map optValue) (result ?r) = map (map optValue) ?m
        \<and> (\<exists>r'. moveMapIn2048Rule ?m Left = Inr r')"
    by simp
  with h e show ?thesis by simp
qed

section \<open>The sum of the tiles\<close>

lemma tabulate2_self: "isNByM R C m \<Longrightarrow> tabulate2 R C (\<lambda>r c. m ! r ! c) = m"
  by (rule tabulate2_eqI) simp_all

lemma sum_list_tabulate2:
  "sum_list (map sum_list (tabulate2 A B f)) = (\<Sum>a<A. \<Sum>b<B. (f a b :: int))"
  by (simp add: tabulate2_def comp_def interv_sum_list_conv_sum_set_nat atLeast0LessThan)

lemma sum_rev_index: "(\<Sum>i<n. f (n - Suc i)) = (\<Sum>i<n. (f i :: int))"
  by (rule sum.nat_diff_reindex)

text \<open>A rotation only rearranges the entries of a grid of numbers.\<close>

lemma sum_list_rotate:
  fixes m :: "int list list"
  assumes "isNByM R C m" "0 < R" "rotateMapCounterClockwise m d = Inr m'"
  shows "sum_list (map sum_list m') = sum_list (map sum_list m)"
proof -
  have m: "sum_list (map sum_list m) = (\<Sum>r<R. \<Sum>c<C. m ! r ! c)"
    using sum_list_tabulate2[of R C "\<lambda>r c. m ! r ! c"] tabulate2_self[OF assms(1)] by simp
  have sw: "(\<Sum>c<C. \<Sum>r<R. m ! r ! c) = (\<Sum>r<R. \<Sum>c<C. m ! r ! c)"
    by (rule sum.swap)
  show ?thesis
  proof (cases d)
    case D0
    with assms show ?thesis by (simp add: rotate_tab[OF assms(1,2)])
  next
    case D90
    with assms have "m' = tabulate2 C R (\<lambda>c r. m ! r ! (C - c - 1))"
      by (simp add: rotate_tab[OF assms(1,2)])
    then have "sum_list (map sum_list m') = (\<Sum>c<C. \<Sum>r<R. m ! r ! (C - Suc c))"
      by (simp add: sum_list_tabulate2)
    also have "\<dots> = (\<Sum>c<C. \<Sum>r<R. m ! r ! c)"
      by (rule sum_rev_index[of "\<lambda>c. \<Sum>r<R. m ! r ! c" C])
    finally show ?thesis by (simp add: m sw)
  next
    case D180
    with assms have "m' = tabulate2 R C (\<lambda>r c. m ! (R - r - 1) ! (C - c - 1))"
      by (simp add: rotate_tab[OF assms(1,2)])
    then have "sum_list (map sum_list m') = (\<Sum>r<R. \<Sum>c<C. m ! (R - Suc r) ! (C - Suc c))"
      by (simp add: sum_list_tabulate2)
    also have "\<dots> = (\<Sum>r<R. \<Sum>c<C. m ! (R - Suc r) ! c)"
      by (simp add: sum_rev_index[of "\<lambda>c. m ! r ! c" C for r])
    also have "\<dots> = (\<Sum>r<R. \<Sum>c<C. m ! r ! c)"
      by (rule sum_rev_index[of "\<lambda>r. \<Sum>c<C. m ! r ! c" R])
    finally show ?thesis by (simp add: m)
  next
    case D270
    with assms have "m' = tabulate2 C R (\<lambda>c r. m ! (R - r - 1) ! c)"
      by (simp add: rotate_tab[OF assms(1,2)])
    then have "sum_list (map sum_list m') = (\<Sum>c<C. \<Sum>r<R. m ! (R - Suc r) ! c)"
      by (simp add: sum_list_tabulate2)
    also have "\<dots> = (\<Sum>c<C. \<Sum>r<R. m ! r ! c)"
      by (simp add: sum_rev_index[of "\<lambda>r. m ! r ! c" R for c])
    finally show ?thesis by (simp add: m sw)
  qed
qed

lemma gridSum_map: "gridSum m = sum_list (map sum_list (map (map cellValue) m))"
  by (simp add: gridSum_def comp_def)

lemma gridSum_rotate:
  assumes "isNByM R C m" "0 < R" "rotateMapCounterClockwise m d = Inr m'"
  shows "gridSum m' = gridSum m"
proof -
  have "rotateMapCounterClockwise (map (map cellValue) m) d = Inr (map (map cellValue) m')"
    by (simp add: rotate_map_map[OF assms(1,2)] assms(3))
  from sum_list_rotate[OF isNByM_map[OF assms(1)] assms(2) this] show ?thesis
    by (simp add: gridSum_map)
qed

text \<open>A merge replaces two cells of value \<open>v\<close> by one of value \<open>2 * v\<close>.\<close>

lemma sum_mergePairs: "sum_list (map cell_value (mergePairs cs)) = sum_list (map cell_value cs)"
  by (induction cs rule: mergePairs.induct) auto

lemma sum_nonEmpty: "sum_list (map cell_value (nonEmpty row)) = sum_list (map cellValue row)"
  by (induction row rule: nonEmpty.induct) auto

lemma sum_moveRowLeft:
  "sum_list (map cellValue (result (moveRowLeft row))) = sum_list (map cellValue row)"
proof -
  have "sum_list (map cellValue (result (moveRowLeft row)))
          = sum_list (map cell_value (mergePairs (nonEmpty row)))"
    by (simp add: result_moveRowLeft padRight_def comp_def sum_list_replicate)
  then show ?thesis by (simp add: sum_mergePairs sum_nonEmpty)
qed

lemma gridSum_moveLeft: "gridSum (result (moveLeft m)) = gridSum m"
  by (simp add: gridSum_def result_moveLeft comp_def sum_moveRowLeft)

text \<open>
  C10. For every grid and direction, if the move returns a result, the tile values
  of the result grid sum to the same number as the tile values of the input. On
  every rectangular grid with at least one row and one column the move does return
  a result.
\<close>

theorem move_preserves_tile_sum:
  "(moveMapIn2048Rule m d = Inr r \<longrightarrow> gridSum (result r) = gridSum m)
   \<and> (isNByM R C m \<and> 0 < R \<and> 0 < C \<longrightarrow> (\<exists>r'. moveMapIn2048Rule m d = Inr r'))"
proof (intro conjI impI)
  assume "isNByM R C m \<and> 0 < R \<and> 0 < C"
  with values_move_unmoved[of R C m d] show "\<exists>r'. moveMapIn2048Rule m d = Inr r'"
    by blast
next
  assume mv: "moveMapIn2048Rule m d = Inr r"
  then show "gridSum (result r) = gridSum m"
  proof (cases rule: move_Inr_cases)
    case (grid R C)
    show ?thesis
    proof (rule move_grid[OF grid, where d = d])
      fix g1 g2 R' C'
      assume g1: "rotateMapCounterClockwise m (rotateDegreeMap d) = Inr g1"
        and g: "isNByM R' C' g1" "0 < R'" "0 < C'"
        and g2: "rotateMapCounterClockwise (result (moveLeft g1)) (revertDegreeMap d) = Inr g2"
        and e: "moveMapIn2048Rule m d
           = Inr \<lparr>result = g2, isMoved = isMoved (moveLeft g1), score = score (moveLeft g1)\<rparr>"
      have "gridSum g2 = gridSum (result (moveLeft g1))"
        by (rule gridSum_rotate[OF isNByM_moveLeft[OF g(1)] g(2) g2])
      also have "\<dots> = gridSum g1" by (rule gridSum_moveLeft)
      also have "\<dots> = gridSum m" by (rule gridSum_rotate[OF grid(1,2) g1])
      finally show ?thesis using e mv by simp
    qed
  next
    case no_cells
    then show ?thesis by simp
  qed
qed

theorem move_preserves_tile_sum_witness:
  "isNByM 2 2 [[Some \<lparr>cell_state = New, cell_value = 2\<rparr>, None],
               [Some \<lparr>cell_state = Normal, cell_value = 2\<rparr>, Some \<lparr>cell_state = Normal, cell_value = 4\<rparr>]]
   \<and> moveMapIn2048Rule
        [[Some \<lparr>cell_state = New, cell_value = 2\<rparr>, None],
         [Some \<lparr>cell_state = Normal, cell_value = 2\<rparr>, Some \<lparr>cell_state = Normal, cell_value = 4\<rparr>]] Up
       = Inr \<lparr>result =
                [[Some \<lparr>cell_state = Merged, cell_value = 4\<rparr>,
                  Some \<lparr>cell_state = Normal, cell_value = 4\<rparr>],
                 [None, None]],
              isMoved = True, score = 4\<rparr>
   \<and> gridSum [[Some \<lparr>cell_state = Merged, cell_value = 4\<rparr>,
                Some \<lparr>cell_state = Normal, cell_value = 4\<rparr>],
               [None, None]]
       = gridSum [[Some \<lparr>cell_state = New, cell_value = 2\<rparr>, None],
                  [Some \<lparr>cell_state = Normal, cell_value = 2\<rparr>, Some \<lparr>cell_state = Normal, cell_value = 4\<rparr>]]"
proof -
  let ?m = "[[Some \<lparr>cell_state = New, cell_value = 2\<rparr>, None],
             [Some \<lparr>cell_state = Normal, cell_value = 2\<rparr>, Some \<lparr>cell_state = Normal, cell_value = 4\<rparr>]]"
  let ?r = "\<lparr>result =
                [[Some \<lparr>cell_state = Merged, cell_value = 4\<rparr>,
                  Some \<lparr>cell_state = Normal, cell_value = 4\<rparr>],
                 [None, None]],
              isMoved = True, score = 4\<rparr>"
  have h: "isNByM 2 2 ?m" by (simp add: isNByM_def)
  have e: "moveMapIn2048Rule ?m Up = Inr ?r"
    by code_simp
  from move_preserves_tile_sum[of ?m Up ?r 2 2] e
  have "gridSum (result ?r) = gridSum ?m"
    by blast
  with h e show ?thesis by simp
qed

section \<open>Properties of the spawner\<close>

lemma set_indices4: "set indices4 = {0..<4} \<times> {0..<4}"
  by (simp add: indices4_def)

lemma nullPositions_filter:
  "\<forall>p\<in>set ps. fst p < length m \<Longrightarrow>
   nullPositions m ps = Inr (filter (\<lambda>(i, j). j < length (m ! i) \<and> m ! i ! j = None) ps)"
  by (induction m ps rule: nullPositions.induct) auto

lemma nullPositions_short:
  "(i, j) \<in> set ps \<Longrightarrow> length m \<le> i \<Longrightarrow> nullPositions m ps = Inl TypeError"
  by (induction m ps rule: nullPositions.induct) (auto split: sum.splits)

lemma nullPositions_4x4:
  assumes "isNByM 4 4 g"
  shows "nullPositions g indices4 = Inr (filter (\<lambda>(i, j). g ! i ! j = None) indices4)"
proof -
  have "nullPositions g indices4
          = Inr (filter (\<lambda>(i, j). j < length (g ! i) \<and> g ! i ! j = None) indices4)"
    using assms by (intro nullPositions_filter) (auto simp: set_indices4 isNByM_def)
  also have "filter (\<lambda>(i, j). j < length (g ! i) \<and> g ! i ! j = None) indices4
          = filter (\<lambda>(i, j). g ! i ! j = None) indices4"
    using assms by (intro filter_cong) (auto simp: set_indices4 isNByM_nth)
  finally show ?thesis .
qed

text \<open>For a random number in the unit interval \<open>getRandomInt\<close> is an index below \<open>n\<close>.\<close>

lemma getRandomInt_less:
  assumes "0 \<le> rnd" "rnd < 1" "0 < n"
  shows "getRandomInt rnd n < n"
proof -
  have "rnd * real n < real n" using assms by simp
  then have "\<lfloor>rnd * real n\<rfloor> < int n" by (simp add: floor_less_iff)
  moreover have "0 \<le> \<lfloor>rnd * real n\<rfloor>" using assms by simp
  ultimately show ?thesis by (simp add: getRandomInt_def nat_less_iff)
qed

lemma hasEmpty_4x4:
  assumes "isNByM 4 4 g" "hasEmpty g"
  shows "filter (\<lambda>(i, j). g ! i ! j = None) indices4 \<noteq> []"
proof -
  from assms(2) obtain row c where "row \<in> set g" "c \<in> set row" "c = None"
    by (auto simp: hasEmpty_def list_ex_iff)
  then obtain i j where "i < length g" "j < length (g ! i)" "g ! i ! j = None"
    by (metis in_set_conv_nth)
  with assms(1) have "(i, j) \<in> set indices4" "g ! i ! j = None"
    by (auto simp: set_indices4 isNByM_def list_all_length)
  then show ?thesis by (auto simp: filter_empty_conv)
qed

lemma not_hasEmpty_nth:
  assumes "\<not> hasEmpty g" "i < length g" "j < length (g ! i)"
  shows "g ! i ! j \<noteq> None"
proof
  assume "g ! i ! j = None"
  moreover have "g ! i \<in> set g" "g ! i ! j \<in> set (g ! i)"
    using assms(2,3) by simp_all
  ultimately have "hasEmpty g"
    unfolding hasEmpty_def list_ex_iff by metis
  with assms(1) show False ..
qed

lemma addNewCell_4x4:
  assumes "isNByM 4 4 g" "hasEmpty g" "0 \<le> rnd2" "rnd2 < 1"
  shows "\<exists>i j v. i < 4 \<and> j < 4 \<and> g ! i ! j = None \<and> (v = 2 \<or> v = 4)
           \<and> addNewCell rnd1 rnd2 g
               = Inr (g[i := (g ! i)[j := Some \<lparr>cell_state = New, cell_value = v\<rparr>]])"
proof -
  let ?nps = "filter (\<lambda>(i, j). g ! i ! j = None) indices4"
  let ?k = "getRandomInt rnd2 (length ?nps)"
  let ?v = "if rnd1 < 6 / 10 then 2 else 4 :: int"
  have ne: "0 < length ?nps" using hasEmpty_4x4[OF assms(1,2)] by simp
  have k: "?k < length ?nps" by (rule getRandomInt_less[OF assms(3,4) ne])
  obtain i j where ij: "?nps ! ?k = (i, j)" by (cases "?nps ! ?k")
  from k have "?nps ! ?k \<in> set ?nps" by (rule nth_mem)
  with ij have mem: "(i, j) \<in> set indices4" and emp: "g ! i ! j = None" by auto
  then have b: "i < 4" "j < 4" by (auto simp: set_indices4)
  have len: "i < length g" "j < length (g ! i)"
    using b assms(1) by (auto simp: isNByM_def list_all_length)
  have "addNewCell rnd1 rnd2 g
          = Inr (g[i := (g ! i)[j := Some \<lparr>cell_state = New, cell_value = ?v\<rparr>]])"
    unfolding addNewCell_def nullPositions_4x4[OF assms(1)]
    using k ij len by (simp add: Let_def arrayWith_def)
  moreover have "?v = 2 \<or> ?v = 4" by simp
  ultimately show ?thesis using b emp by blast
qed

lemma addNewCell_full:
  assumes "\<not> hasEmpty g"
  shows "addNewCell rnd1 rnd2 g = Inl TypeError"
proof (cases "4 \<le> length g")
  case True
  have "nullPositions g indices4
          = Inr (filter (\<lambda>(i, j). j < length (g ! i) \<and> g ! i ! j = None) indices4)"
    using True by (intro nullPositions_filter) (auto simp: set_indices4)
  also have "filter (\<lambda>(i, j). j < length (g ! i) \<and> g ! i ! j = None) indices4 = []"
    unfolding filter_empty_conv
  proof
    fix p assume "p \<in> set indices4"
    then have "fst p < length g" using True by (auto simp: set_indices4)
    then show "\<not> (case p of (i, j) \<Rightarrow> j < length (g ! i) \<and> g ! i ! j = None)"
      using not_hasEmpty_nth[OF assms, of "fst p" "snd p"] by (cases p) auto
  qed
  finally show ?thesis by (simp add: addNewCell_def getRandomInt_def)
next
  case False
  then have "(length g, 0) \<in> set indices4" by (auto simp: set_indices4)
  then have "nullPositions g indices4 = Inl TypeError"
    by (rule nullPositions_short) simp
  then show ?thesis by (simp add: addNewCell_def)
qed

lemma update_frame:
  assumes "isNByM 4 4 g" "i < 4" "j < 4"
  shows "isNByM 4 4 (g[i := (g ! i)[j := v]])"
    and "g[i := (g ! i)[j := v]] ! i ! j = v"
    and "\<forall>i'<4. \<forall>j'<4. (i', j') \<noteq> (i, j) \<longrightarrow> g[i := (g ! i)[j := v]] ! i' ! j' = g ! i' ! j'"
proof -
  have len: "length g = 4" "length (g ! i) = 4"
    using assms by (simp_all add: isNByM_length isNByM_nth)
  have "length (g[i := (g ! i)[j := v]] ! n) = 4" if "n < 4" for n
    using that len assms(1) by (cases "n = i") (simp_all add: isNByM_nth)
  then show "isNByM 4 4 (g[i := (g ! i)[j := v]])"
    using len by (simp add: isNByM_def list_all_length)
  show "g[i := (g ! i)[j := v]] ! i ! j = v"
    using assms(2,3) len by simp
  have "g[i := (g ! i)[j := v]] ! i' ! j' = g ! i' ! j'"
    if "i' < 4" "j' < 4" "(i', j') \<noteq> (i, j)" for i' j'
    using that len by (cases "i' = i") simp_all
  then show "\<forall>i'<4. \<forall>j'<4. (i', j') \<noteq> (i, j) \<longrightarrow> g[i := (g ! i)[j := v]] ! i' ! j' = g ! i' ! j'"
    by blast
qed

text \<open>
  C8. For every 4x4 grid with at least one empty cell, and every outcome of the
  two random draws, \<open>addNewCell\<close> returns the grid with one position replaced: the
  position was empty in the input and holds a cell of state \<open>new\<close> and value 2 or 4
  in the result; the result is again 4x4 and agrees with the input at every other
  position. The input is a value of the model and is not changed: the source
  builds the result with \<open>Array.prototype.with\<close>, which copies.
\<close>

theorem addNewCell_fills_one_empty_cell:
  assumes "isNByM 4 4 g" "hasEmpty g" "0 \<le> rnd2" "rnd2 < 1"
  shows "\<exists>i j v. i < 4 \<and> j < 4 \<and> g ! i ! j = None \<and> (v = 2 \<or> v = 4)
           \<and> addNewCell rnd1 rnd2 g
               = Inr (g[i := (g ! i)[j := Some \<lparr>cell_state = New, cell_value = v\<rparr>]])
           \<and> isNByM 4 4 (g[i := (g ! i)[j := Some \<lparr>cell_state = New, cell_value = v\<rparr>]])
           \<and> g[i := (g ! i)[j := Some \<lparr>cell_state = New, cell_value = v\<rparr>]] ! i ! j
                = Some \<lparr>cell_state = New, cell_value = v\<rparr>
           \<and> (\<forall>i'<4. \<forall>j'<4. (i', j') \<noteq> (i, j) \<longrightarrow>
                  g[i := (g ! i)[j := Some \<lparr>cell_state = New, cell_value = v\<rparr>]] ! i' ! j'
                    = g ! i' ! j')"
proof -
  from addNewCell_4x4[OF assms, of rnd1] obtain i j v where
    *: "i < 4" "j < 4" "g ! i ! j = None" "v = 2 \<or> v = 4"
       "addNewCell rnd1 rnd2 g
          = Inr (g[i := (g ! i)[j := Some \<lparr>cell_state = New, cell_value = v\<rparr>]])"
    by blast
  from update_frame[OF assms(1) *(1,2), of "Some \<lparr>cell_state = New, cell_value = v\<rparr>"] *
  show ?thesis by blast
qed

theorem addNewCell_fills_one_empty_cell_witness:
  "isNByM 4 4 [[Some \<lparr>cell_state = Normal, cell_value = 2\<rparr>, None, None, None],
               [None, None, None, None],
               [None, None, Some \<lparr>cell_state = Merged, cell_value = 4\<rparr>, None],
               [None, None, None, None]]
   \<and> hasEmpty [[Some \<lparr>cell_state = Normal, cell_value = 2\<rparr>, None, None, None],
                [None, None, None, None],
                [None, None, Some \<lparr>cell_state = Merged, cell_value = 4\<rparr>, None],
                [None, None, None, None]]
   \<and> addNewCell (7 / 10) (1 / 2)
         [[Some \<lparr>cell_state = Normal, cell_value = 2\<rparr>, None, None, None],
          [None, None, None, None],
          [None, None, Some \<lparr>cell_state = Merged, cell_value = 4\<rparr>, None],
          [None, None, None, None]]
       = Inr [[Some \<lparr>cell_state = Normal, cell_value = 2\<rparr>, None, None, None],
              [None, None, None, None],
              [Some \<lparr>cell_state = New, cell_value = 4\<rparr>, None,
               Some \<lparr>cell_state = Merged, cell_value = 4\<rparr>, None],
              [None, None, None, None]]
   \<and> (\<exists>i j v. i < 4 \<and> j < 4 \<and> (v = 2 \<or> v = 4)
          \<and> addNewCell (7 / 10) (1 / 2)
                [[Some \<lparr>cell_state = Normal, cell_value = 2\<rparr>, None, None, None],
                 [None, None, None, None],
                 [None, None, Some \<lparr>cell_state = Merged, cell_value = 4\<rparr>, None],
                 [None, None, None, None]]
              = Inr ([[Some \<lparr>cell_state = Normal, cell_value = 2\<rparr>, None, None, None],
                      [None, None, None, None],
                      [None, None, Some \<lparr>cell_state = Merged, cell_value = 4\<rparr>, None],
                      [None, None, None, None]]
                     [i := ([[Some \<lparr>cell_state = Normal, cell_value = 2\<rparr>, None, None, None],
                             [None, None, None, None],
                             [None, None, Some \<lparr>cell_state = Merged, cell_value = 4\<rparr>, None],
                             [None, None, None, None]] ! i)
                           [j := Some \<lparr>cell_state = New, cell_value = v\<rparr>]]))"
proof -
  let ?g = "[[Some \<lparr>cell_state = Normal, cell_value = 2\<rparr>, None, None, None],
             [None, None, None, None],
             [None, None, Some \<lparr>cell_state = Merged, cell_value = 4\<rparr>, None],
             [None, None, None, None]]"
  have h1: "isNByM 4 4 ?g" by (simp add: isNByM_def)
  have h2: "hasEmpty ?g" by (simp add: hasEmpty_def)
  have h3: "(0::real) \<le> 1 / 2" "(1::real) / 2 < 1" by simp_all
  have e: "addNewCell (7 / 10) (1 / 2) ?g
       = Inr [[Some \<lparr>cell_state = Normal, cell_value = 2\<rparr>, None, None, None],
              [None, None, None, None],
              [Some \<lparr>cell_state = New, cell_value = 4\<rparr>, None,
               Some \<lparr>cell_state = Merged, cell_value = 4\<rparr>, None],
              [None, None, None, None]]"
    by code_simp
  from addNewCell_fills_one_empty_cell[OF h1 h2 h3, of "7 / 10"]
  have "\<exists>i j v. i < 4 \<and> j < 4 \<and> (v = 2 \<or> v = 4)
          \<and> addNewCell (7 / 10) (1 / 2) ?g
              = Inr (?g[i := (?g ! i)[j := Some \<lparr>cell_state = New, cell_value = v\<rparr>]])"
    by blast
  with h1 h2 e show ?thesis by blast
qed

section \<open>Errors\<close>

text \<open>
  The inputs on which the move raises an error: arrays without rows, arrays with
  rows of different lengths, and rows without cells moved up or down.
\<close>

lemma move_raises_iff:
  "(\<exists>e. moveMapIn2048Rule m d = Inl e)
     \<longleftrightarrow> m = [] \<or> \<not> rectangular m \<or> (hd m = [] \<and> (d = Up \<or> d = Down))"
proof (cases "m = []")
  case True
  then show ?thesis by (simp add: move_no_rows)
next
  case ne: False
  show ?thesis
  proof (cases "rectangular m")
    case False
    then show ?thesis by (simp add: not_rectangular_NotNByM)
  next
    case True
    with ne have g: "isNByM (length m) (length (hd m)) m" "0 < length m"
      by (simp_all add: rectangular_isNByM)
    show ?thesis
    proof (cases "hd m = []")
      case False
      with rectangular_returns[OF ne False True, of d] ne True show ?thesis by auto
    next
      case e: True
      with g have "isNByM (length m) 0 m" by simp
      from move_no_cells[OF this g(2), of d] ne True e show ?thesis
        by (cases d) simp_all
    qed
  qed
qed

text \<open>
  The loops of \<open>addNewCell\<close> run over four rows and four columns whatever the size
  of the grid: on a grid with fewer than four rows the read of the missing row
  throws, also when the grid has an empty cell.
\<close>

lemma addNewCell_short:
  assumes "length g < 4"
  shows "addNewCell rnd1 rnd2 g = Inl TypeError"
proof -
  from assms have "(length g, 0) \<in> set indices4" by (auto simp: set_indices4)
  then have "nullPositions g indices4 = Inl TypeError"
    by (rule nullPositions_short) simp
  then show ?thesis by (simp add: addNewCell_def)
qed

text \<open>
  C9 as it is stated does not hold: the grid of one row and one column whose only
  cell is empty is rectangular and has an empty cell, and \<open>addNewCell\<close> raises a
  \<open>TypeError\<close> on it.
\<close>

theorem addNewCell_raises_on_small_grid:
  "isNByM 1 1 [[None]] \<and> hasEmpty [[None]]
   \<and> addNewCell (1 / 2) (1 / 2) [[None]] = Inl TypeError"
  by (simp add: isNByM_def hasEmpty_def addNewCell_short)

text \<open>
  C9, amended. On a grid with at least one row and one column,
  \<open>moveMapIn2048Rule\<close> raises an error if and only if some row's length differs from
  the first row's length, and the error is then \<open>Map is not N by M\<close>. \<open>addNewCell\<close>
  raises an error on every grid without an empty cell, and returns a grid on every
  4x4 grid with an empty cell. A move that moves nothing is a result with \<open>isMoved\<close>
  false, not an error.
\<close>

theorem move_and_spawn_errors:
  "(m \<noteq> [] \<and> hd m \<noteq> [] \<longrightarrow>
      ((\<exists>e. moveMapIn2048Rule m d = Inl e) \<longleftrightarrow> (\<exists>row\<in>set m. length row \<noteq> length (hd m))))
   \<and> ((\<exists>row\<in>set m. length row \<noteq> length (hd m)) \<longrightarrow> moveMapIn2048Rule m d = Inl NotNByM)
   \<and> (\<not> hasEmpty g \<longrightarrow> addNewCell rnd1 rnd2 g = Inl TypeError)
   \<and> (isNByM 4 4 g \<and> hasEmpty g \<and> 0 \<le> rnd2 \<and> rnd2 < 1 \<longrightarrow> (\<exists>r. addNewCell rnd1 rnd2 g = Inr r))
   \<and> moveMapIn2048Rule (replicate 4 (replicate 4 None)) Left
       = Inr \<lparr>result = replicate 4 (replicate 4 None), isMoved = False, score = 0\<rparr>"
proof (intro conjI impI)
  have rect: "rectangular m \<longleftrightarrow> \<not> (\<exists>row\<in>set m. length row \<noteq> length (hd m))"
    by (auto simp: rectangular_def list_all_iff)
  show "moveMapIn2048Rule m d = Inl NotNByM" if "\<exists>row\<in>set m. length row \<noteq> length (hd m)"
    using that not_rectangular_NotNByM[of m d] rect by blast
  show "(\<exists>e. moveMapIn2048Rule m d = Inl e) \<longleftrightarrow> (\<exists>row\<in>set m. length row \<noteq> length (hd m))"
    if "m \<noteq> [] \<and> hd m \<noteq> []"
  proof (cases "rectangular m")
    case True
    with that rectangular_returns[of m d] obtain r where "moveMapIn2048Rule m d = Inr r"
      by blast
    with True rect show ?thesis by simp
  next
    case False
    with not_rectangular_NotNByM[of m d] rect show ?thesis by simp
  qed
  show "addNewCell rnd1 rnd2 g = Inl TypeError" if "\<not> hasEmpty g"
    by (rule addNewCell_full[OF that])
  show "\<exists>r. addNewCell rnd1 rnd2 g = Inr r"
    if "isNByM 4 4 g \<and> hasEmpty g \<and> 0 \<le> rnd2 \<and> rnd2 < 1"
    using that addNewCell_4x4[of g rnd2 rnd1] by blast
  show "moveMapIn2048Rule (replicate 4 (replicate 4 None)) Left
       = Inr \<lparr>result = replicate 4 (replicate 4 None), isMoved = False, score = 0\<rparr>"
    by code_simp
qed

theorem move_and_spawn_errors_witness:
  "moveMapIn2048Rule [[None, None], [None]] Up = Inl NotNByM
   \<and> (\<exists>r. moveMapIn2048Rule [[None, Some \<lparr>cell_state = New, cell_value = 2\<rparr>]] Up = Inr r)
   \<and> addNewCell (1 / 2) (1 / 2)
        (replicate 4 (replicate 4 (Some \<lparr>cell_state = Normal, cell_value = 2\<rparr>))) = Inl TypeError
   \<and> (\<exists>r. addNewCell (1 / 2) (1 / 2) (replicate 4 (replicate 4 None)) = Inr r)"
proof -
  let ?full = "replicate 4 (replicate 4 (Some \<lparr>cell_state = Normal, cell_value = 2\<rparr>))"
  let ?empty = "replicate 4 (replicate 4 (None :: Cell))"
  have "moveMapIn2048Rule [[None, None], [None]] Up = Inl NotNByM"
    using move_and_spawn_errors[where m = "[[None, None], [None]]" and d = Up] by simp
  moreover have "\<exists>r. moveMapIn2048Rule [[None, Some \<lparr>cell_state = New, cell_value = 2\<rparr>]] Up = Inr r"
    using move_and_spawn_errors[where m = "[[None, Some \<lparr>cell_state = New, cell_value = 2\<rparr>]]" and d = Up]
    by (cases "moveMapIn2048Rule [[None, Some \<lparr>cell_state = New, cell_value = 2\<rparr>]] Up") simp_all
  moreover have "addNewCell (1 / 2) (1 / 2) ?full = Inl TypeError"
  proof -
    have "\<not> hasEmpty ?full" by code_simp
    with move_and_spawn_errors[where g = ?full and ?rnd1.0 = "1 / 2" and ?rnd2.0 = "1 / 2"]
    show ?thesis by blast
  qed
  moreover have "\<exists>r. addNewCell (1 / 2) (1 / 2) ?empty = Inr r"
  proof -
    have "isNByM 4 4 ?empty" "hasEmpty ?empty" by code_simp+
    moreover have "(0::real) \<le> 1 / 2" "(1::real) / 2 < 1" by simp_all
    ultimately show ?thesis
      using move_and_spawn_errors[where g = ?empty and ?rnd1.0 = "1 / 2" and ?rnd2.0 = "1 / 2"]
      by blast
  qed
  ultimately show ?thesis by blast
qed

section \<open>Properties of the terminal detector\<close>

lemma refAt_4x4:
  assumes "isNByM 4 4 m" "i < 4" "j < 4"
  shows "refAt m i j = Inr (case m ! i ! j of None \<Rightarrow> JNull | Some r \<Rightarrow> JRef r)"
  using assms by (simp add: refAt_def isNByM_length isNByM_nth)

lemma jsval_eq:
  "(case a of None \<Rightarrow> JNull | Some r \<Rightarrow> JRef r) = (case b of None \<Rightarrow> JNull | Some r \<Rightarrow> JRef r)
     \<longleftrightarrow> a = b"
  by (cases a; cases b) simp_all

lemma jsval_null: "(case a of None \<Rightarrow> JNull | Some r \<Rightarrow> JRef r) = JNull \<longleftrightarrow> a = None"
  by (cases a) simp_all

lemma anyEmpty_4x4:
  assumes "isNByM 4 4 m" "set ps \<subseteq> set indices4"
  shows "anyEmpty m ps = Inr (\<exists>(i, j)\<in>set ps. m ! i ! j = None)"
  using assms(2)
proof (induction ps)
  case Nil
  show ?case by simp
next
  case (Cons p ps)
  obtain i j where p: "p = (i, j)" by (cases p)
  with Cons.prems have b: "i < 4" "j < 4" by (auto simp: set_indices4)
  from Cons have IH: "anyEmpty m ps = Inr (\<exists>(i, j)\<in>set ps. m ! i ! j = None)" by simp
  show ?case
    by (auto simp: p refAt_4x4[OF assms(1) b] jsval_null IH)
qed

lemma anyMergable_4x4:
  assumes "isNByM 4 4 m" "set ps \<subseteq> set indices4"
  shows "anyMergable m ps
           = Inr (\<exists>(i, j)\<in>set ps. (j < 3 \<and> m ! i ! j = m ! i ! (j + 1))
                                  \<or> (i < 3 \<and> m ! i ! j = m ! (i + 1) ! j))"
  using assms(2)
proof (induction ps)
  case Nil
  show ?case by simp
next
  case (Cons p ps)
  obtain i j where p: "p = (i, j)" by (cases p)
  with Cons.prems have b: "i < 4" "j < 4" by (auto simp: set_indices4)
  from Cons have IH: "anyMergable m ps
           = Inr (\<exists>(i, j)\<in>set ps. (j < 3 \<and> m ! i ! j = m ! i ! (j + 1))
                                  \<or> (i < 3 \<and> m ! i ! j = m ! (i + 1) ! j))" by simp
  have r: "j < 3 \<Longrightarrow>
      refAt m i (Suc j) = Inr (case m ! i ! Suc j of None \<Rightarrow> JNull | Some r \<Rightarrow> JRef r)"
    using b by (intro refAt_4x4[OF assms(1)]) simp_all
  have d: "i < 3 \<Longrightarrow>
      refAt m (Suc i) j = Inr (case m ! Suc i ! j of None \<Rightarrow> JNull | Some r \<Rightarrow> JRef r)"
    using b by (intro refAt_4x4[OF assms(1)]) simp_all
  show ?case
    by (cases "j < 3"; cases "i < 3") (auto simp: p refAt_4x4[OF assms(1) b] r d jsval_eq IH)
qed

text \<open>
  What \<open>userLoses\<close> decides on a 4x4 grid: no cell is \<open>null\<close>, and no cell is the
  same object as its right or lower neighbour. The values of the cells are not
  read.
\<close>

lemma userLoses_compares_identity:
  assumes "isNByM 4 4 m"
  shows "userLoses m
           = Inr (\<not> (\<exists>(i, j)\<in>set indices4. m ! i ! j = None)
                \<and> \<not> (\<exists>(i, j)\<in>set indices4. (j < 3 \<and> m ! i ! j = m ! i ! (j + 1))
                                  \<or> (i < 3 \<and> m ! i ! j = m ! (i + 1) ! j)))"
  by (auto simp: userLoses_def anyEmpty_4x4[OF assms] anyMergable_4x4[OF assms]
      split: bool.splits)

text \<open>
  C1. The claim is that \<open>userLoses\<close> returns true if and only if the grid has no
  empty cell and no two adjacent cells hold equal values. On the full board above,
  whose sixteen cells are distinct objects and whose last row ends in two cells of
  value 4, \<open>userLoses\<close> returns true, although a move to the left merges these two
  cells: the adjacent pair of equal values is not seen.
\<close>

theorem userLoses_misses_equal_neighbours:
  "userLoses fullBoard = Inr True
   \<and> isNByM 4 4 fullBoard
   \<and> distinct (concat fullBoard)
   \<and> \<not> hasEmpty (deref fullBoardStore fullBoard)
   \<and> optValue (deref fullBoardStore fullBoard ! 3 ! 2) = Some 4
   \<and> optValue (deref fullBoardStore fullBoard ! 3 ! 3) = Some 4
   \<and> map_sum id (\<lambda>r. (isMoved r, score r, map optValue (result r ! 3)))
        (moveMapIn2048Rule (deref fullBoardStore fullBoard) Left)
       = Inr (True, 8, [Some 4, Some 2, Some 8, None])"
proof (intro conjI)
  show "userLoses fullBoard = Inr True" by code_simp
  show "isNByM 4 4 fullBoard" by code_simp
  show "distinct (concat fullBoard)" by (simp add: fullBoard_def)
  show "\<not> hasEmpty (deref fullBoardStore fullBoard)"
    by (simp add: hasEmpty_def deref_def fullBoard_def)
  show "optValue (deref fullBoardStore fullBoard ! 3 ! 2) = Some 4"
    by (simp add: optValue_def deref_def fullBoard_def fullBoardStore_def)
  show "optValue (deref fullBoardStore fullBoard ! 3 ! 3) = Some 4"
    by (simp add: optValue_def deref_def fullBoard_def fullBoardStore_def)
  show "map_sum id (\<lambda>r. (isMoved r, score r, map optValue (result r ! 3)))
        (moveMapIn2048Rule (deref fullBoardStore fullBoard) Left)
       = Inr (True, 8, [Some 4, Some 2, Some 8, None])"
    by code_simp
qed

end
